theory Spec2Isabelle
  imports Complex_Main "HOL-Library.Word"
begin

section \<open>JavaScript values received by the dashboard\<close>

text \<open>
  A JavaScript string is a sequence of UTF-16 code units. The literals of \<^verbatim>\<open>script.js\<close>
  are ASCII apart from a few pictographs, which are written out as their code units.
\<close>

type_synonym jsstring = "16 word list"

definition ascii :: "string \<Rightarrow> jsstring" where
  "ascii s = map of_char s"

text \<open>
  Numbers of a snapshot are IEEE doubles. The script never computes with them except to
  format a price, so a finite number is kept as the rational it denotes.
\<close>

datatype jsnum = NaN | PosInfinity | NegInfinity | Finite rat

text \<open>
  The payload of a \<^verbatim>\<open>status_update\<close> event or of \<^verbatim>\<open>/api/status\<close> is parsed JSON;
  \<^verbatim>\<open>undefined\<close> is what reading an absent property yields. An object is the association
  list of its own properties, the first binding of a key being the property's value.
\<close>

datatype jsval =
    JUndefined
  | JNull
  | JBool bool
  | JNum jsnum
  | JStr jsstring
  | JArr "jsval list"
  | JObj "(jsstring \<times> jsval) list"

datatype jserror = TypeError

text \<open>\<^verbatim>\<open>ToBoolean\<close>, as used by \<^verbatim>\<open>if (v)\<close>, \<^verbatim>\<open>!v\<close>, \<^verbatim>\<open>v || w\<close>, \<^verbatim>\<open>v && w\<close> and \<^verbatim>\<open>v ? a : b\<close>.\<close>

fun truthy :: "jsval \<Rightarrow> bool" where
  "truthy JUndefined = False"
| "truthy JNull = False"
| "truthy (JBool b) = b"
| "truthy (JNum n) = (n \<noteq> NaN \<and> n \<noteq> Finite 0)"
| "truthy (JStr s) = (s \<noteq> [])"
| "truthy (JArr vs) = True"
| "truthy (JObj kvs) = True"

definition nullish :: "jsval \<Rightarrow> bool" where
  "nullish v = (v = JUndefined \<or> v = JNull)"

text \<open>
  The own data property \<open>k\<close> of a value that is neither \<^verbatim>\<open>null\<close> nor \<^verbatim>\<open>undefined\<close>.
  The keys the script reads (\<^verbatim>\<open>instruments\<close>, \<^verbatim>\<open>bot_running\<close>, \<^verbatim>\<open>EUR_USD\<close>, \<^verbatim>\<open>USD_JPY\<close>,
  \<^verbatim>\<open>price\<close>, \<^verbatim>\<open>active_trade\<close>, \<^verbatim>\<open>risk_level\<close>, \<^verbatim>\<open>confidence\<close>, \<^verbatim>\<open>recommendation\<close>) are
  no properties of a string, a number, a boolean or an array, and of no prototype.
\<close>

fun member :: "jsval \<Rightarrow> jsstring \<Rightarrow> jsval" where
  "member (JObj kvs) k = (case map_of kvs k of None \<Rightarrow> JUndefined | Some v \<Rightarrow> v)"
| "member v k = JUndefined"

text \<open>\<^verbatim>\<open>v.k\<close> throws on \<^verbatim>\<open>null\<close> and \<^verbatim>\<open>undefined\<close>; \<^verbatim>\<open>v?.k\<close> yields \<^verbatim>\<open>undefined\<close> there.\<close>

definition getProp :: "jsval \<Rightarrow> jsstring \<Rightarrow> jserror + jsval" where
  "getProp v k = (if nullish v then Inl TypeError else Inr (member v k))"

definition optProp :: "jsval \<Rightarrow> jsstring \<Rightarrow> jsval" where
  "optProp v k = (if nullish v then JUndefined else member v k)"

text \<open>\<^verbatim>\<open>a || b\<close> on values.\<close>

definition orElse :: "jsval \<Rightarrow> jsval \<Rightarrow> jsval" where
  "orElse a b = (if truthy a then a else b)"

text \<open>Sequencing of a computation that may throw.\<close>

definition andThen :: "jserror + 'a \<Rightarrow> ('a \<Rightarrow> jserror + 'b) \<Rightarrow> jserror + 'b" where
  "andThen r f = (case r of Inl e \<Rightarrow> Inl e | Inr x \<Rightarrow> f x)"

text \<open>
  \<^verbatim>\<open>String.prototype.includes\<close>: scan the positions of \<open>s\<close> from the left for an
  occurrence of \<open>t\<close>.
\<close>

fun startsWith :: "jsstring \<Rightarrow> jsstring \<Rightarrow> bool" where
  "startsWith s [] = True"
| "startsWith [] (c # t) = False"
| "startsWith (d # s) (c # t) = (d = c \<and> startsWith s t)"

fun includes_str :: "jsstring \<Rightarrow> jsstring \<Rightarrow> bool" where
  "includes_str [] t = (t = [])"
| "includes_str (d # s) t = (startsWith (d # s) t \<or> includes_str s t)"

text \<open>
  The call \<^verbatim>\<open>r.includes(t)\<close> on a truthy value \<open>r\<close>: a string searches for a substring, an
  array for an element equal to the string \<open>t\<close>; a number, a boolean or an object has no
  callable \<^verbatim>\<open>includes\<close>, and the call throws.
\<close>

definition callIncludes :: "jsval \<Rightarrow> jsstring \<Rightarrow> jserror + bool" where
  "callIncludes r t =
     (case r of
        JStr s \<Rightarrow> Inr (includes_str s t)
      | JArr vs \<Rightarrow> Inr (JStr t \<in> set vs)
      | _ \<Rightarrow> Inl TypeError)"

section \<open>Display mapper\<close>

record risk =
  risk_text :: jsstring
  risk_class :: jsstring

record recommendation =
  rec_text :: jsstring
  rec_action :: jsstring
  rec_class :: jsstring

text \<open>\<^verbatim>\<open>mapRiskLevel\<close>: a \<^verbatim>\<open>switch\<close>, which compares with \<^verbatim>\<open>===\<close>.\<close>

definition mapRiskLevel :: "jsval \<Rightarrow> risk" where
  "mapRiskLevel riskLevel =
     (if riskLevel = JStr (ascii ''LOW'') then
        \<lparr>risk_text = ascii ''LOW RISK'', risk_class = ascii ''low''\<rparr>
      else if riskLevel = JStr (ascii ''MEDIUM'') then
        \<lparr>risk_text = ascii ''MEDIUM RISK'', risk_class = ascii ''medium''\<rparr>
      else if riskLevel = JStr (ascii ''HIGH'') then
        \<lparr>risk_text = ascii ''HIGH RISK'', risk_class = ascii ''high''\<rparr>
      else if riskLevel = JStr (ascii ''VERY HIGH'') then
        \<lparr>risk_text = ascii ''VERY HIGH RISK'', risk_class = ascii ''very-high''\<rparr>
      else
        \<lparr>risk_text = ascii ''ANALYZING'', risk_class = []\<rparr>)"

text \<open>The pictographs of the action labels: U+1F680, U+1F4C9, and U+26A0 U+FE0F.\<close>

definition rocket :: jsstring where
  "rocket = [0xD83D, 0xDE80]"

definition chartDown :: jsstring where
  "chartDown = [0xD83D, 0xDCC9]"

definition warningSign :: jsstring where
  "warningSign = [0x26A0, 0xFE0F]"

definition mapRecommendation :: "jsval \<Rightarrow> jserror + recommendation" where
  "mapRecommendation r =
     (if \<not> truthy r then
        Inr \<lparr>rec_text = ascii ''Collecting market data...'', rec_action = [], rec_class = []\<rparr>
      else
        andThen (callIncludes r (ascii ''STRONG BUY'')) (\<lambda>buy.
        if buy then
          Inr \<lparr>rec_text = ascii ''AI recommends:'',
               rec_action = ascii ''STRONG BUY '' @ rocket, rec_class = ascii ''buy''\<rparr>
        else
          andThen (callIncludes r (ascii ''STRONG SELL'')) (\<lambda>sell.
          if sell then
            Inr \<lparr>rec_text = ascii ''AI recommends:'',
                 rec_action = ascii ''STRONG SELL '' @ chartDown, rec_class = ascii ''sell''\<rparr>
          else
            andThen (callIncludes r (ascii ''DO NOT TRADE'')) (\<lambda>dnt.
            andThen (if dnt then Inr True else callIncludes r (ascii ''AVOID'')) (\<lambda>avoid.
            if avoid then
              Inr \<lparr>rec_text = ascii ''AI recommends:'',
                   rec_action = ascii ''DO NOT TRADE '' @ warningSign, rec_class = ascii ''wait''\<rparr>
            else
              Inr \<lparr>rec_text = ascii ''AI is analyzing...'',
                   rec_action = ascii ''WAIT FOR SIGNAL'', rec_class = ascii ''wait''\<rparr>)))))"

section \<open>Conversions to strings and to integers\<close>

text \<open>
  What the script leaves to the arithmetic of doubles is a parameter of the model:
  \<open>numToString\<close> is \<^verbatim>\<open>ToString\<close> on a number that is no integer below \<open>2 ^ 53\<close> (a finite
  number standing for the double nearest to it), \<open>mockPrice v\<close> is
  \<^verbatim>\<open>(v * 50000).toFixed(0)\<close> for a value \<open>v\<close> that converts to a number, and
  \<open>bigParseInt s\<close> is the double that \<^verbatim>\<open>parseInt(s)\<close> returns when the integer it reads
  is \<open>2 ^ 53\<close> or more in magnitude.
\<close>

record env =
  numToString :: "jsnum \<Rightarrow> jsstring"
  mockPrice :: "jsval \<Rightarrow> jsstring"
  bigParseInt :: "jsstring \<Rightarrow> jsnum"

text \<open>The decimal digits of a natural number, as \<^verbatim>\<open>toString\<close> prints an integer.\<close>

fun decimal :: "nat \<Rightarrow> jsstring" where
  "decimal n = (if n < 10 then [of_nat (48 + n)] else decimal (n div 10) @ [of_nat (48 + n mod 10)])"

declare decimal.simps [simp del]

definition intToString :: "int \<Rightarrow> jsstring" where
  "intToString i = (if i < 0 then ascii ''-'' @ decimal (nat (- i)) else decimal (nat i))"

text \<open>
  \<^verbatim>\<open>ToString\<close> on a number: an integer below \<open>2 ^ 53\<close> in magnitude prints as its digits.
\<close>

definition numberToString :: "env \<Rightarrow> jsnum \<Rightarrow> jsstring" where
  "numberToString E x =
     (case x of
        Finite q \<Rightarrow>
          if of_int \<lfloor>q\<rfloor> = q \<and> \<bar>q\<bar> < 2 ^ 53 then intToString \<lfloor>q\<rfloor> else numToString E x
      | _ \<Rightarrow> numToString E x)"

fun joinWith :: "jsstring \<Rightarrow> jsstring list \<Rightarrow> jsstring" where
  "joinWith sep [] = []"
| "joinWith sep [s] = s"
| "joinWith sep (s # t # ss) = s @ sep @ joinWith sep (t # ss)"

text \<open>The results of a list of computations, or the first error among them.\<close>

fun collect :: "(jserror + 'a) list \<Rightarrow> jserror + 'a list" where
  "collect [] = Inr []"
| "collect (Inl e # rs) = Inl e"
| "collect (Inr x # rs) = (case collect rs of Inl e \<Rightarrow> Inl e | Inr xs \<Rightarrow> Inr (x # xs))"

text \<open>
  \<^verbatim>\<open>ToString\<close>. An array joins its elements with commas, the nullish ones as empty. An
  object of parsed JSON prints as \<^verbatim>\<open>[object Object]\<close> through \<^verbatim>\<open>Object.prototype.toString\<close>,
  unless it has a property \<^verbatim>\<open>toString\<close> of its own: that value is not callable, the
  inherited \<^verbatim>\<open>valueOf\<close> returns the object itself, and the conversion throws. The
  conversion to a number of \<^verbatim>\<open>v * 50000\<close> throws on the same values.
\<close>

fun toStringJS :: "env \<Rightarrow> jsval \<Rightarrow> jserror + jsstring" where
  "toStringJS E JUndefined = Inr (ascii ''undefined'')"
| "toStringJS E JNull = Inr (ascii ''null'')"
| "toStringJS E (JBool b) = Inr (if b then ascii ''true'' else ascii ''false'')"
| "toStringJS E (JNum n) = Inr (numberToString E n)"
| "toStringJS E (JStr s) = Inr s"
| "toStringJS E (JArr vs) =
     (case collect (map (\<lambda>v. if nullish v then Inr [] else toStringJS E v) vs) of
        Inl e \<Rightarrow> Inl e
      | Inr ss \<Rightarrow> Inr (joinWith (ascii '','') ss))"
| "toStringJS E (JObj kvs) =
     (if map_of kvs (ascii ''toString'') = None then Inr (ascii ''[object Object]'')
      else Inl TypeError)"

text \<open>Assigning a value to \<^verbatim>\<open>textContent\<close>: \<^verbatim>\<open>null\<close> and \<^verbatim>\<open>undefined\<close> give the empty text.\<close>

definition domString :: "env \<Rightarrow> jsval \<Rightarrow> jserror + jsstring" where
  "domString E v = (if nullish v then Inr [] else toStringJS E v)"

text \<open>
  \<^verbatim>\<open>parseInt(s)\<close> without a radix: white space is skipped, then a sign, then \<^verbatim>\<open>0x\<close> or
  \<^verbatim>\<open>0X\<close> selects radix 16; the longest run of digits is read, and no digit gives
  \<^verbatim>\<open>NaN\<close>, which is \<open>None\<close> here. \<open>parseInt\<close> is the integer read; \<open>parseIntJS\<close> is the
  number returned, which is that integer when it is below \<open>2 ^ 53\<close> in magnitude.
\<close>

definition isWhiteSpace :: "16 word \<Rightarrow> bool" where
  "isWhiteSpace c =
     (c \<in> {0x9, 0xA, 0xB, 0xC, 0xD, 0x20, 0xA0, 0x1680, 0x2028, 0x2029, 0x202F, 0x205F,
            0x3000, 0xFEFF}
      \<or> (0x2000 \<le> c \<and> c \<le> 0x200A))"

definition digitValue :: "16 word \<Rightarrow> nat option" where
  "digitValue c =
     (if 0x30 \<le> c \<and> c \<le> 0x39 then Some (unat c - 48)
      else if 0x61 \<le> c \<and> c \<le> 0x7A then Some (unat c - 87)
      else if 0x41 \<le> c \<and> c \<le> 0x5A then Some (unat c - 55)
      else None)"

definition isDigit :: "nat \<Rightarrow> 16 word \<Rightarrow> bool" where
  "isDigit R c = (case digitValue c of None \<Rightarrow> False | Some d \<Rightarrow> d < R)"

definition digitsValue :: "nat \<Rightarrow> jsstring \<Rightarrow> nat" where
  "digitsValue R Z =
     foldl (\<lambda>acc c. acc * R + (case digitValue c of None \<Rightarrow> 0 | Some d \<Rightarrow> d)) 0 Z"

definition parseInt :: "jsstring \<Rightarrow> int option" where
  "parseInt inputString =
     (let S = dropWhile isWhiteSpace inputString;
          sign = (if S \<noteq> [] \<and> hd S = 0x2D then - 1 else 1 :: int);
          S1 = (if S \<noteq> [] \<and> (hd S = 0x2B \<or> hd S = 0x2D) then tl S else S);
          hex = (startsWith S1 (ascii ''0x'') \<or> startsWith S1 (ascii ''0X''));
          R = (if hex then 16 else 10);
          S2 = (if hex then drop 2 S1 else S1);
          Z = takeWhile (isDigit R) S2
      in if Z = [] then None else Some (sign * int (digitsValue R Z)))"

definition parseIntJS :: "env \<Rightarrow> jsstring \<Rightarrow> jsnum" where
  "parseIntJS E s =
     (case parseInt s of
        None \<Rightarrow> NaN
      | Some n \<Rightarrow> if \<bar>n\<bar> < 2 ^ 53 then Finite (of_int n) else bigParseInt E s)"

text \<open>
  \<^verbatim>\<open>parseInt(data.confidence) || 0\<close>: the argument is converted with \<^verbatim>\<open>ToString\<close>, which
  may throw; \<^verbatim>\<open>NaN\<close> and zero both give zero.
\<close>

definition percentage :: "env \<Rightarrow> jsval \<Rightarrow> jserror + jsnum" where
  "percentage E confidence =
     andThen (toStringJS E confidence) (\<lambda>s.
       let n = parseIntJS E s in Inr (if truthy (JNum n) then n else Finite 0))"

text \<open>\<^verbatim>\<open>s.padStart(2, '0')\<close>.\<close>

definition padStart2 :: "jsstring \<Rightarrow> jsstring" where
  "padStart2 s = (if 2 \<le> length s then s else replicate (2 - length s) 0x30 @ s)"

section \<open>The page and the state of the dashboard\<close>

text \<open>
  The markup is not part of the script, which tests every element it looks up. A slot is
  an element the script addresses: by \<^verbatim>\<open>getElementById\<close>, or by \<^verbatim>\<open>querySelector\<close> inside such
  an element. The slots of a page are taken to be distinct elements, none inside a slot
  whose text is written.
\<close>

datatype slot = Id string | Within string string

record element =
  textContent :: jsstring
  className :: jsstring
  disabled :: bool
  opacity :: jsstring
  width :: jsstring
  background :: jsstring

text \<open>
  \<^verbatim>\<open>style.width = t\<close> changes the declaration only when \<open>t\<close> parses as a width. The texts
  assigned end in a percent sign, and a percentage token (an optional sign, digits with an
  optional fraction or a fraction alone, an optional exponent, the percent sign) is a width
  unless it is negative. \<open>width\<close> holds the text of the last assignment that took effect.
\<close>

definition isDecimalDigit :: "16 word \<Rightarrow> bool" where
  "isDecimalDigit c = (0x30 \<le> c \<and> c \<le> 0x39)"

definition skipExponent :: "jsstring \<Rightarrow> jsstring" where
  "skipExponent r =
     (case r of
        [] \<Rightarrow> r
      | e # rest \<Rightarrow>
          if e = 0x65 \<or> e = 0x45 then
            (let r1 = (case rest of
                         [] \<Rightarrow> rest
                       | sg # r' \<Rightarrow> if sg = 0x2B \<or> sg = 0x2D then r' else rest)
             in if r1 \<noteq> [] \<and> isDecimalDigit (hd r1) then dropWhile isDecimalDigit r1 else r)
          else r)"

definition acceptsWidth :: "jsstring \<Rightarrow> bool" where
  "acceptsWidth t =
     (let negative = (t \<noteq> [] \<and> hd t = 0x2D);
          t1 = (if t \<noteq> [] \<and> (hd t = 0x2B \<or> hd t = 0x2D) then tl t else t);
          whole = takeWhile isDecimalDigit t1;
          r1 = dropWhile isDecimalDigit t1;
          hasFraction = (case r1 of
                           dot # d # r' \<Rightarrow> dot = 0x2E \<and> isDecimalDigit d
                         | _ \<Rightarrow> False);
          fraction = (if hasFraction then takeWhile isDecimalDigit (tl r1) else []);
          r2 = (if hasFraction then dropWhile isDecimalDigit (tl r1) else r1)
      in (whole \<noteq> [] \<or> fraction \<noteq> []) \<and> skipExponent r2 = ascii ''%'' \<and>
         (if negative then list_all (\<lambda>c. c = 0x30) (whole @ fraction) else True))"

definition setWidth :: "jsstring \<Rightarrow> element \<Rightarrow> element" where
  "setWidth t el = (if acceptsWidth t then el\<lparr>width := t\<rparr> else el)"

text \<open>
  A child node of the log container is an element or something else (text, a comment):
  \<^verbatim>\<open>children\<close> counts the elements, \<^verbatim>\<open>firstChild\<close> and \<^verbatim>\<open>lastChild\<close> see every node.
\<close>

datatype node = ElementNode element | OtherNode

text \<open>
  The fields of \<^verbatim>\<open>CryptoTradingBot\<close>, then the page. The socket, when there is one, is
  the list of the events emitted on it so far. \<open>activityLog\<close> holds the child nodes of
  the element \<^verbatim>\<open>activity-log\<close>, and is \<open>None\<close> on a page without it.
\<close>

record bot =
  socket :: "string list option"
  isConnected :: bool
  botRunning :: bool
  instruments :: jsval
  signalsToday :: nat
  successRate :: nat
  startTime :: "int option"
  page :: "slot \<rightharpoonup> element"
  activityLog :: "node list option"

text \<open>A method that may throw leaves the state as it was at the \<^verbatim>\<open>throw\<close>.\<close>

type_synonym completion = "bot \<times> jserror option"

text \<open>\<^verbatim>\<open>const e = document.getElementById(..); if (e) { .. }\<close>\<close>

definition withElement :: "slot \<Rightarrow> (element \<Rightarrow> element) \<Rightarrow> bot \<Rightarrow> bot" where
  "withElement sl f st =
     (case page st sl of
        None \<Rightarrow> st
      | Some el \<Rightarrow> st\<lparr>page := (page st)(sl \<mapsto> f el)\<rparr>)"

text \<open>The pictographs of the status texts and log messages.\<close>

definition greenCircle :: jsstring where
  "greenCircle = [0xD83D, 0xDFE2]"

definition redCircle :: jsstring where
  "redCircle = [0xD83D, 0xDD34]"

definition pauseButton :: jsstring where
  "pauseButton = [0x23F8, 0xFE0F]"

definition cycleArrows :: jsstring where
  "cycleArrows = [0xD83D, 0xDD04]"

definition crossMark :: jsstring where
  "crossMark = [0x274C]"

section \<open>Activity log\<close>

definition isElementNode :: "node \<Rightarrow> bool" where
  "isElementNode n = (case n of ElementNode el \<Rightarrow> True | OtherNode \<Rightarrow> False)"

definition children :: "node list \<Rightarrow> node list" where
  "children ns = filter isElementNode ns"

text \<open>
  \<^verbatim>\<open>while (logContainer.children.length > 20) logContainer.removeChild(logContainer.lastChild)\<close>
\<close>

function keepLast20 :: "node list \<Rightarrow> node list" where
  "keepLast20 ns = (if 20 < length (children ns) then keepLast20 (butlast ns) else ns)"
  by pat_completeness auto
termination
proof (relation "measure length")
  show "wf (measure length)" by simp
next
  fix ns :: "node list"
  assume "20 < length (children ns)"
  then have "ns \<noteq> []" by (auto simp: children_def)
  then show "(butlast ns, ns) \<in> measure length" by simp
qed

declare keepLast20.simps [simp del]

definition logEntry :: "jsstring \<Rightarrow> jsstring \<Rightarrow> element" where
  "logEntry timestamp message =
     \<lparr>textContent = timestamp @ ascii '' - '' @ message, className = ascii ''log-entry'',
      disabled = False, opacity = [], width = [], background = []\<rparr>"

text \<open>
  \<^verbatim>\<open>addLogEntry(message)\<close>; \<open>timestamp\<close> is what \<^verbatim>\<open>new Date().toLocaleTimeString()\<close> returns
  at the call.
\<close>

definition addLogEntry :: "jsstring \<Rightarrow> jsstring \<Rightarrow> bot \<Rightarrow> bot" where
  "addLogEntry timestamp message st =
     (case activityLog st of
        None \<Rightarrow> st
      | Some ns \<Rightarrow>
          st\<lparr>activityLog := Some (keepLast20 (ElementNode (logEntry timestamp message) # ns))\<rparr>)"

section \<open>Command dispatch\<close>

definition emit :: "string \<Rightarrow> bot \<Rightarrow> bot" where
  "emit name st = st\<lparr>socket := map_option (\<lambda>sent. sent @ [name]) (socket st)\<rparr>"

definition startBot :: "jsstring \<Rightarrow> bot \<Rightarrow> bot" where
  "startBot timestamp st =
     (if isConnected st \<and> socket st \<noteq> None then
        addLogEntry timestamp (cycleArrows @ ascii '' Starting trading bot...'')
          (emit ''start_bot'' st)
      else
        addLogEntry timestamp
          (crossMark @ ascii '' Cannot start bot - No connection to server'') st)"

definition stopBot :: "jsstring \<Rightarrow> bot \<Rightarrow> bot" where
  "stopBot timestamp st =
     (if isConnected st \<and> socket st \<noteq> None then
        addLogEntry timestamp (cycleArrows @ ascii '' Stopping trading bot...'')
          (emit ''stop_bot'' st)
      else st)"

section \<open>Rendering\<close>

definition updateBotControls :: "bot \<Rightarrow> bot" where
  "updateBotControls st =
     (case (page st (Id ''start-bot''), page st (Id ''stop-bot'')) of
        (Some startBtn, Some stopBtn) \<Rightarrow>
          if botRunning st then
            st\<lparr>page := (page st)
                 (Id ''start-bot'' \<mapsto> startBtn\<lparr>disabled := True, opacity := ascii ''0.5''\<rparr>,
                  Id ''stop-bot'' \<mapsto> stopBtn\<lparr>disabled := False, opacity := ascii ''1''\<rparr>)\<rparr>
          else
            st\<lparr>page := (page st)
                 (Id ''start-bot'' \<mapsto> startBtn\<lparr>disabled := False, opacity := ascii ''1''\<rparr>,
                  Id ''stop-bot'' \<mapsto> stopBtn\<lparr>disabled := True, opacity := ascii ''0.5''\<rparr>)\<rparr>
      | _ \<Rightarrow> st)"

definition updateConnectionStatus :: "jsstring \<Rightarrow> jsstring \<Rightarrow> bot \<Rightarrow> bot" where
  "updateConnectionStatus status cls st =
     withElement (Id ''connection-status'')
       (\<lambda>el. el\<lparr>textContent := status, className := ascii ''status-value '' @ cls\<rparr>) st"

definition getStatusColor :: "string \<Rightarrow> jsstring" where
  "getStatusColor status =
     (if status = ''active'' then ascii ''#00ff88''
      else if status = ''stopped'' then ascii ''#ff4757''
      else if status = ''analyzing'' then ascii ''#ffa500''
      else ascii ''#42f5d7'')"

definition updateSignalIndicator :: "jsstring \<Rightarrow> string \<Rightarrow> bot \<Rightarrow> bot" where
  "updateSignalIndicator txt status st =
     (case page st (Id ''signalIndicator'') of
        None \<Rightarrow> st
      | Some indicator \<Rightarrow>
          withElement (Within ''signalIndicator'' ''.pulse-dot'')
            (\<lambda>el. el\<lparr>background := getStatusColor status\<rparr>)
            (withElement (Within ''signalIndicator'' ''span'') (\<lambda>el. el\<lparr>textContent := txt\<rparr>) st))"

record card =
  card_price :: jsstring
  card_risk :: risk
  card_confidence :: jsval
  card_recommendation :: recommendation

text \<open>
  \<^verbatim>\<open>updateCryptoCard\<close>, in the four steps of its body: price and risk; the confidence
  text; the confidence bar; the recommendation. Writing the confidence to \<^verbatim>\<open>textContent\<close>
  and passing it to \<^verbatim>\<open>parseInt\<close> both convert it to a string, which may throw after the
  price and the risk are written; neither happens when its element is missing.
\<close>

definition writePriceAndRisk :: "string \<Rightarrow> card \<Rightarrow> bot \<Rightarrow> bot" where
  "writePriceAndRisk prefix data st =
     withElement (Id (prefix @ ''-risk''))
       (\<lambda>el. el\<lparr>textContent := risk_text (card_risk data),
               className := ascii ''risk-value '' @ risk_class (card_risk data)\<rparr>)
       (if card_price data \<noteq> ascii ''Multiple Pairs'' then
          withElement (Id (prefix @ ''-price''))
            (\<lambda>el. el\<lparr>textContent := ascii ''$'' @ card_price data\<rparr>) st
        else st)"

definition writeConfidence :: "env \<Rightarrow> string \<Rightarrow> jsval \<Rightarrow> bot \<Rightarrow> jserror + bot" where
  "writeConfidence E prefix confidence st =
     (if page st (Id (prefix @ ''-confidence'')) = None then Inr st
      else andThen (domString E confidence) (\<lambda>t.
             Inr (withElement (Id (prefix @ ''-confidence'')) (\<lambda>el. el\<lparr>textContent := t\<rparr>) st)))"

definition writeConfidenceBar :: "env \<Rightarrow> string \<Rightarrow> jsval \<Rightarrow> bot \<Rightarrow> jserror + bot" where
  "writeConfidenceBar E prefix confidence st =
     (if page st (Id (prefix @ ''-confidence-bar'')) = None then Inr st
      else andThen (percentage E confidence) (\<lambda>x.
             Inr (withElement (Id (prefix @ ''-confidence-bar''))
                    (setWidth (numberToString E x @ ascii ''%'')) st)))"

definition writeRecommendation :: "string \<Rightarrow> recommendation \<Rightarrow> bot \<Rightarrow> bot" where
  "writeRecommendation prefix r st =
     (case page st (Id (prefix @ ''-recommendation'')) of
        None \<Rightarrow> st
      | Some recommendationElement \<Rightarrow>
          withElement (Within (prefix @ ''-recommendation'') ''.recommendation-action'')
            (\<lambda>el. el\<lparr>textContent := rec_action r,
                    className := ascii ''recommendation-action '' @ rec_class r\<rparr>)
            (withElement (Within (prefix @ ''-recommendation'') ''.recommendation-text'')
               (\<lambda>el. el\<lparr>textContent := rec_text r\<rparr>) st))"

definition updateCryptoCard :: "env \<Rightarrow> string \<Rightarrow> card \<Rightarrow> bot \<Rightarrow> completion" where
  "updateCryptoCard E prefix data st =
     (let st2 = writePriceAndRisk prefix data st
      in case writeConfidence E prefix (card_confidence data) st2 of
           Inl e \<Rightarrow> (st2, Some e)
         | Inr st3 \<Rightarrow>
             (case writeConfidenceBar E prefix (card_confidence data) st3 of
                Inl e \<Rightarrow> (st3, Some e)
              | Inr st4 \<Rightarrow> (writeRecommendation prefix (card_recommendation data) st4, None)))"

text \<open>
  The price of the first card: \<^verbatim>\<open>price ? (price * 50000).toFixed(0) : '0'\<close>. The product
  converts a truthy price to a number, which throws where \<^verbatim>\<open>ToString\<close> does.
\<close>

definition priceText :: "env \<Rightarrow> jsval \<Rightarrow> jserror + jsstring" where
  "priceText E price =
     (if truthy price then andThen (toStringJS E price) (\<lambda>s. Inr (mockPrice E price))
      else Inr (ascii ''0''))"

text \<open>
  \<^verbatim>\<open>updateCryptoCards\<close>. \<open>btcData\<close> and \<open>altData\<close> are truthy, so reading their properties
  does not throw; the price and \<^verbatim>\<open>mapRecommendation\<close> may, before the card is touched, and
  the update of the first card may, before the second is looked at.
\<close>

definition updateCryptoCards :: "env \<Rightarrow> jsval \<Rightarrow> bot \<Rightarrow> completion" where
  "updateCryptoCards E insts st =
     (case getProp insts (ascii ''EUR_USD'') of
        Inl e \<Rightarrow> (st, Some e)
      | Inr btc \<Rightarrow>
          let btcData = orElse btc (JObj []);
              btcTrade = member btcData (ascii ''active_trade'')
          in case priceText E (member btcData (ascii ''price'')) of
               Inl e \<Rightarrow> (st, Some e)
             | Inr btcPrice \<Rightarrow>
          (case mapRecommendation (optProp btcTrade (ascii ''recommendation'')) of
               Inl e \<Rightarrow> (st, Some e)
             | Inr btcRec \<Rightarrow>
                 (case updateCryptoCard E ''btc''
                       \<lparr>card_price = btcPrice,
                        card_risk = mapRiskLevel (optProp btcTrade (ascii ''risk_level'')),
                        card_confidence =
                          orElse (optProp btcTrade (ascii ''confidence'')) (JStr (ascii ''0%'')),
                        card_recommendation = btcRec\<rparr> st of
                    (st1, Some e) \<Rightarrow> (st1, Some e)
                  | (st1, None) \<Rightarrow>
                 (case getProp insts (ascii ''USD_JPY'') of
                      Inl e \<Rightarrow> (st1, Some e)
                    | Inr alt \<Rightarrow>
                        let altData = orElse alt (JObj []);
                            altTrade = member altData (ascii ''active_trade'')
                        in case mapRecommendation (optProp altTrade (ascii ''recommendation'')) of
                             Inl e \<Rightarrow> (st1, Some e)
                           | Inr altRec \<Rightarrow>
                               updateCryptoCard E ''alt''
                                  \<lparr>card_price = ascii ''Multiple Pairs'',
                                   card_risk =
                                     mapRiskLevel (optProp altTrade (ascii ''risk_level'')),
                                   card_confidence =
                                     orElse (optProp altTrade (ascii ''confidence''))
                                       (JStr (ascii ''0%'')),
                                   card_recommendation = altRec\<rparr> st1))))"

text \<open>
  \<^verbatim>\<open>Object.values\<close> of a truthy value: the values of an object's properties, each key
  once; the elements of an array; the code units of a string; nothing otherwise.
\<close>

fun ownValues :: "jsstring list \<Rightarrow> (jsstring \<times> jsval) list \<Rightarrow> jsval list" where
  "ownValues seen [] = []"
| "ownValues seen ((k, v) # kvs) =
     (if k \<in> set seen then ownValues seen kvs else v # ownValues (k # seen) kvs)"

fun objectValues :: "jsval \<Rightarrow> jsval list" where
  "objectValues (JObj kvs) = ownValues [] kvs"
| "objectValues (JArr vs) = vs"
| "objectValues (JStr s) = map (\<lambda>c. JStr [c]) s"
| "objectValues v = []"

text \<open>
  The \<^verbatim>\<open>forEach\<close> of \<^verbatim>\<open>updateStats\<close>, counting into \<open>activeSignals\<close>; reading
  \<^verbatim>\<open>inst.active_trade\<close> throws on a \<^verbatim>\<open>null\<close> instrument.
\<close>

fun countSignals :: "jsval list \<Rightarrow> nat \<Rightarrow> jserror + nat" where
  "countSignals [] activeSignals = Inr activeSignals"
| "countSignals (inst # rest) activeSignals =
     (case getProp inst (ascii ''active_trade'') of
        Inl e \<Rightarrow> Inl e
      | Inr trade \<Rightarrow>
          countSignals rest
            (if truthy trade \<and> truthy (member trade (ascii ''recommendation''))
             then Suc activeSignals else activeSignals))"

definition renderStats :: "bot \<Rightarrow> bot" where
  "renderStats st =
     (let rate = (if 0 < signalsToday st then min 95 (75 + signalsToday st * 5) else 0)
      in withElement (Id ''success-rate'') (\<lambda>el. el\<lparr>textContent := decimal rate @ ascii ''%''\<rparr>)
           (withElement (Id ''signals-today'')
              (\<lambda>el. el\<lparr>textContent := decimal (signalsToday st)\<rparr>) st))"

text \<open>
  \<^verbatim>\<open>updateStats\<close>: the market status, then the counter, then \<open>renderStats\<close> for the two
  texts that follow it.
\<close>

definition updateStats :: "jsval \<Rightarrow> bot \<Rightarrow> completion" where
  "updateStats data st =
     (let st1 = withElement (Id ''market-status'')
                  (\<lambda>el. el\<lparr>textContent := (if botRunning st then greenCircle @ ascii '' ACTIVE''
                                             else redCircle @ ascii '' INACTIVE'')\<rparr>) st
      in case getProp data (ascii ''instruments'') of
           Inl e \<Rightarrow> (st1, Some e)
         | Inr insts \<Rightarrow>
             if truthy insts then
               (case countSignals (objectValues insts) 0 of
                  Inl e \<Rightarrow> (st1, Some e)
                | Inr activeSignals \<Rightarrow>
                    (renderStats
                       (if signalsToday st1 < activeSignals
                        then st1\<lparr>signalsToday := activeSignals\<rparr> else st1),
                     None))
             else (renderStats st1, None))"

definition updateDashboard :: "env \<Rightarrow> jsval \<Rightarrow> bot \<Rightarrow> completion" where
  "updateDashboard E data st =
     (case getProp data (ascii ''instruments'') of
        Inl e \<Rightarrow> (st, Some e)
      | Inr insts \<Rightarrow>
          if truthy insts then
            (case updateCryptoCards E insts (st\<lparr>instruments := insts\<rparr>) of
               (st1, Some e) \<Rightarrow> (st1, Some e)
             | (st1, None) \<Rightarrow> updateStats data st1)
          else (st, None))"

section \<open>Uptime\<close>

text \<open>
  \<^verbatim>\<open>Date.now()\<close> is an integer number of milliseconds, of magnitude at most
  \<open>8.64 * 10 ^ 15\<close>; on such values the division and \<^verbatim>\<open>Math.floor\<close> below are exact.
  \<^verbatim>\<open>%\<close> takes the sign of the dividend.
\<close>

definition remainder :: "int \<Rightarrow> int \<Rightarrow> int" where
  "remainder a b = sgn a * (\<bar>a\<bar> mod \<bar>b\<bar>)"

text \<open>The callback of \<^verbatim>\<open>setInterval\<close> in \<^verbatim>\<open>startUptimeCounter\<close>, run at time \<open>now\<close>.\<close>

definition tick :: "int \<Rightarrow> bot \<Rightarrow> bot" where
  "tick now st =
     (case startTime st of
        None \<Rightarrow> st
      | Some t \<Rightarrow>
          if t = 0 then st
          else
            let uptime = now - t;
                hours = uptime div (1000 * 60 * 60);
                minutes = remainder uptime (1000 * 60 * 60) div (1000 * 60);
                seconds = remainder uptime (1000 * 60) div 1000
            in withElement (Id ''uptime'')
                 (\<lambda>el. el\<lparr>textContent :=
                    padStart2 (intToString hours) @ ascii '':'' @
                    padStart2 (intToString minutes) @ ascii '':'' @
                    padStart2 (intToString seconds)\<rparr>) st)"

section \<open>Events\<close>

text \<open>
  The constructor: \<open>ioOk\<close> tells whether \<^verbatim>\<open>io()\<close> returned a socket or threw.
\<close>

definition newBot :: "bool \<Rightarrow> (slot \<rightharpoonup> element) \<Rightarrow> node list option \<Rightarrow> bot" where
  "newBot ioOk pg lg =
     (let st = \<lparr>socket = None, isConnected = False, botRunning = False, instruments = JObj [],
                signalsToday = 0, successRate = 0, startTime = None, page = pg,
                activityLog = lg\<rparr>
      in if ioOk then st\<lparr>socket := Some []\<rparr>
         else updateConnectionStatus (ascii ''Connection Failed'') (ascii ''error'') st)"

definition onConnect :: "bot \<Rightarrow> bot" where
  "onConnect st =
     updateConnectionStatus (greenCircle @ ascii '' Connected'') (ascii ''connected'')
       (st\<lparr>isConnected := True\<rparr>)"

definition onDisconnect :: "bot \<Rightarrow> bot" where
  "onDisconnect st =
     updateConnectionStatus (redCircle @ ascii '' Disconnected'') (ascii ''error'')
       (st\<lparr>isConnected := False\<rparr>)"

definition onBotStarted :: "int \<Rightarrow> jsstring \<Rightarrow> bot \<Rightarrow> bot" where
  "onBotStarted now timestamp st =
     addLogEntry timestamp (rocket @ ascii '' Trading bot started - Analyzing crypto markets'')
       (updateSignalIndicator (rocket @ ascii '' Bot Active - Scanning Markets...'') ''active''
          (updateBotControls (st\<lparr>botRunning := True, startTime := Some now\<rparr>)))"

definition onBotStopped :: "jsstring \<Rightarrow> bot \<Rightarrow> bot" where
  "onBotStopped timestamp st =
     addLogEntry timestamp (pauseButton @ ascii '' Trading bot stopped'')
       (updateSignalIndicator (pauseButton @ ascii '' Bot Stopped'') ''stopped''
          (updateBotControls (st\<lparr>botRunning := False, startTime := None\<rparr>)))"

text \<open>
  \<^verbatim>\<open>loadInitialStatus\<close> from the point where \<^verbatim>\<open>fetch\<close> and \<^verbatim>\<open>response.json()\<close> have settled:
  \<open>response\<close> is the parsed body, or \<open>None\<close> when either failed. Whatever is thrown is
  caught and logged to the console.
\<close>

definition loadInitialStatus :: "env \<Rightarrow> jsval option \<Rightarrow> int \<Rightarrow> bot \<Rightarrow> bot" where
  "loadInitialStatus E response now st =
     (case response of
        None \<Rightarrow> st
      | Some data \<Rightarrow>
          (case getProp data (ascii ''bot_running'') of
             Inl e \<Rightarrow> st
           | Inr running \<Rightarrow>
               let st1 = (if truthy running then
                            updateSignalIndicator
                              (rocket @ ascii '' Bot Active - Scanning Markets...'') ''active''
                              (st\<lparr>botRunning := True, startTime := Some now\<rparr>)
                          else st)
               in fst (updateDashboard E data (updateBotControls st1))))"

text \<open>
  What happens to the dashboard: the five socket events, the settled status request, a
  click on either button and the timer. An event carries what its handler reads from
  the clock.
\<close>

datatype event =
    Connect
  | Disconnect
  | StatusUpdate jsval
  | BotStarted int jsstring
  | BotStopped jsstring
  | StatusLoaded "jsval option" int
  | ClickStart jsstring
  | ClickStop jsstring
  | Tick int

fun handle :: "env \<Rightarrow> event \<Rightarrow> bot \<Rightarrow> completion" where
  "handle E Connect st = (onConnect st, None)"
| "handle E Disconnect st = (onDisconnect st, None)"
| "handle E (StatusUpdate data) st = updateDashboard E data st"
| "handle E (BotStarted now timestamp) st = (onBotStarted now timestamp st, None)"
| "handle E (BotStopped timestamp) st = (onBotStopped timestamp st, None)"
| "handle E (StatusLoaded response now) st = (loadInitialStatus E response now st, None)"
| "handle E (ClickStart timestamp) st = (startBot timestamp st, None)"
| "handle E (ClickStop timestamp) st = (stopBot timestamp st, None)"
| "handle E (Tick now) st = (tick now st, None)"

text \<open>
  Socket events need the socket on which \<^verbatim>\<open>setupSocketEvents\<close> registered the handlers,
  the status request is sent by the \<^verbatim>\<open>connect\<close> handler, and a click needs its button,
  which must not be disabled.
\<close>

fun enabled :: "event \<Rightarrow> bot \<Rightarrow> bool" where
  "enabled (ClickStart timestamp) st =
     (case page st (Id ''start-bot'') of None \<Rightarrow> False | Some btn \<Rightarrow> \<not> disabled btn)"
| "enabled (ClickStop timestamp) st =
     (case page st (Id ''stop-bot'') of None \<Rightarrow> False | Some btn \<Rightarrow> \<not> disabled btn)"
| "enabled (Tick now) st = True"
| "enabled ev st = (socket st \<noteq> None)"

fun run :: "env \<Rightarrow> event list \<Rightarrow> bot \<Rightarrow> bot" where
  "run E [] st = st"
| "run E (ev # evs) st = run E evs (fst (handle E ev st))"

inductive reachable :: "env \<Rightarrow> bot \<Rightarrow> bool" for E :: env where
  start: "reachable E (newBot ioOk pg lg)"
| step: "reachable E st \<Longrightarrow> enabled ev st \<Longrightarrow> reachable E (fst (handle E ev st))"

section \<open>Notions used to state the properties\<close>

text \<open>\<open>t\<close> occurs in \<open>s\<close> as a substring.\<close>

definition occursIn :: "jsstring \<Rightarrow> jsstring \<Rightarrow> bool" where
  "occursIn t s = (\<exists>p q. s = p @ t @ q)"



text \<open>
  A page that has every slot, an environment that prints the integer part of a number,
  rounds the mock price to the nearest integer and keeps a large integer as it is read,
  and the snapshot of the specification's scenario, for evaluating the model on examples.
\<close>

definition blankElement :: element where
  "blankElement =
     \<lparr>textContent = [], className = [], disabled = False, opacity = [], width = [],
      background = []\<rparr>"

definition fullPage :: "slot \<rightharpoonup> element" where
  "fullPage = (\<lambda>sl. Some blankElement)"

definition integerEnv :: env where
  "integerEnv =
     \<lparr>numToString = (\<lambda>n. case n of
          NaN \<Rightarrow> ascii ''NaN''
        | PosInfinity \<Rightarrow> ascii ''Infinity''
        | NegInfinity \<Rightarrow> ascii ''-Infinity''
        | Finite q \<Rightarrow> intToString \<lfloor>q\<rfloor>),
      mockPrice = (\<lambda>v. case v of
          JNum (Finite q) \<Rightarrow> intToString \<lfloor>q * 50000 + 1 / 2\<rfloor>
        | _ \<Rightarrow> ascii ''NaN''),
      bigParseInt = (\<lambda>s. case parseInt s of
          None \<Rightarrow> NaN
        | Some n \<Rightarrow> Finite (of_int n))\<rparr>"

definition sellInstruments :: jsval where
  "sellInstruments =
     JObj [(ascii ''EUR_USD'',
        JObj [(ascii ''price'', JNum (Finite (11 / 10))),
              (ascii ''active_trade'',
                 JObj [(ascii ''risk_level'', JStr (ascii ''HIGH'')),
                       (ascii ''confidence'', JStr (ascii ''60%'')),
                       (ascii ''recommendation'', JStr (ascii ''STRONG SELL now''))])])]"

definition sellSnapshot :: jsval where
  "sellSnapshot =
     JObj [(ascii ''bot_running'', JBool True), (ascii ''instruments'', sellInstruments)]"




text \<open>The second state differs from the first in the page only.\<close>

definition repaints :: "bot \<Rightarrow> bot \<Rightarrow> bool" where
  "repaints st st' = (\<exists>pg. st' = st\<lparr>page := pg\<rparr>)"

text \<open>
  The values that \<^verbatim>\<open>ToString\<close> cannot print: an object with a property named
  \<^verbatim>\<open>toString\<close>, and an array that holds such a value.
\<close>

fun unprintable :: "jsval \<Rightarrow> bool" where
  "unprintable (JObj kvs) = (ascii ''toString'' \<in> fst ` set kvs)"
| "unprintable (JArr vs) = list_ex unprintable vs"
| "unprintable v = False"


text \<open>A number in at least two decimal digits, padded with a zero.\<close>

definition twoDigits :: "nat \<Rightarrow> jsstring" where
  "twoDigits n = (if n < 10 then [0x30, of_nat (48 + n)] else decimal n)"

section \<open>Properties of the display mapper\<close>

lemma startsWith_iff: "startsWith s t \<longleftrightarrow> (\<exists>q. s = t @ q)"
  by (induction s t rule: startsWith.induct) auto

lemma includes_iff: "includes_str s t \<longleftrightarrow> (\<exists>p q. s = p @ t @ q)"
proof (induction s)
  case Nil
  then show ?case by auto
next
  case (Cons d s)
  show ?case
  proof
    assume "includes_str (d # s) t"
    then consider "startsWith (d # s) t" | "includes_str s t" by auto
    then show "\<exists>p q. d # s = p @ t @ q"
    proof cases
      case 1
      then obtain q where "d # s = t @ q" by (auto simp: startsWith_iff)
      then have "d # s = [] @ t @ q" by simp
      then show ?thesis by blast
    next
      case 2
      then obtain p q where "s = p @ t @ q" using Cons.IH by blast
      then have "d # s = (d # p) @ t @ q" by simp
      then show ?thesis by blast
    qed
  next
    assume "\<exists>p q. d # s = p @ t @ q"
    then obtain p q where pq: "d # s = p @ t @ q" by blast
    show "includes_str (d # s) t"
    proof (cases p)
      case Nil
      with pq have "startsWith (d # s) t" by (auto simp: startsWith_iff)
      then show ?thesis by simp
    next
      case (Cons e p')
      with pq have "s = p' @ t @ q" by simp
      then have "includes_str s t" using Cons.IH by blast
      then show ?thesis by simp
    qed
  qed
qed

lemma occursIn_includes: "occursIn t s = includes_str s t"
  by (simp add: occursIn_def includes_iff)

text \<open>
  C1, as the claim states it, fails: the string \<^verbatim>\<open>VERY_HIGH\<close> is no case of the
  \<^verbatim>\<open>switch\<close>, whose fourth label is \<^verbatim>\<open>VERY HIGH\<close> with a space, so it falls to the default.
\<close>

theorem mapRiskLevel_VERY_HIGH_counterexample:
  "mapRiskLevel (JStr (ascii ''VERY_HIGH'')) = \<lparr>risk_text = ascii ''ANALYZING'', risk_class = []\<rparr>
   \<and> mapRiskLevel (JStr (ascii ''VERY_HIGH''))
       \<noteq> \<lparr>risk_text = ascii ''VERY HIGH RISK'', risk_class = ascii ''very-high''\<rparr>"
  by (simp add: mapRiskLevel_def ascii_def)

text \<open>
  C1 (amended): the risk classification is total. The strings \<^verbatim>\<open>LOW\<close>, \<^verbatim>\<open>MEDIUM\<close>, \<^verbatim>\<open>HIGH\<close>
  and \<^verbatim>\<open>VERY HIGH\<close> (with a space) map to their fixed text and class, and every other
  value, \<^verbatim>\<open>VERY_HIGH\<close> and \<^verbatim>\<open>undefined\<close> among them, maps to \<^verbatim>\<open>ANALYZING\<close> with the
  empty class.
\<close>

theorem mapRiskLevel_total:
  "mapRiskLevel (JStr (ascii ''LOW'')) =
     \<lparr>risk_text = ascii ''LOW RISK'', risk_class = ascii ''low''\<rparr> \<and>
   mapRiskLevel (JStr (ascii ''MEDIUM'')) =
     \<lparr>risk_text = ascii ''MEDIUM RISK'', risk_class = ascii ''medium''\<rparr> \<and>
   mapRiskLevel (JStr (ascii ''HIGH'')) =
     \<lparr>risk_text = ascii ''HIGH RISK'', risk_class = ascii ''high''\<rparr> \<and>
   mapRiskLevel (JStr (ascii ''VERY HIGH'')) =
     \<lparr>risk_text = ascii ''VERY HIGH RISK'', risk_class = ascii ''very-high''\<rparr> \<and>
   (\<forall>v. v \<notin> {JStr (ascii ''LOW''), JStr (ascii ''MEDIUM''), JStr (ascii ''HIGH''),
              JStr (ascii ''VERY HIGH'')}
      \<longrightarrow> mapRiskLevel v = \<lparr>risk_text = ascii ''ANALYZING'', risk_class = []\<rparr>)"
  by (simp add: mapRiskLevel_def ascii_def)

theorem mapRiskLevel_total_witness:
  "JStr (ascii ''VERY_HIGH'') \<notin> {JStr (ascii ''LOW''), JStr (ascii ''MEDIUM''),
      JStr (ascii ''HIGH''), JStr (ascii ''VERY HIGH'')} \<and>
   mapRiskLevel (JStr (ascii ''VERY_HIGH'')) =
     \<lparr>risk_text = ascii ''ANALYZING'', risk_class = []\<rparr> \<and>
   JUndefined \<notin> {JStr (ascii ''LOW''), JStr (ascii ''MEDIUM''),
      JStr (ascii ''HIGH''), JStr (ascii ''VERY HIGH'')} \<and>
   mapRiskLevel JUndefined = \<lparr>risk_text = ascii ''ANALYZING'', risk_class = []\<rparr>"
proof -
  have h: "JStr (ascii ''VERY_HIGH'') \<notin> {JStr (ascii ''LOW''), JStr (ascii ''MEDIUM''),
      JStr (ascii ''HIGH''), JStr (ascii ''VERY HIGH'')}"
    by (simp add: ascii_def)
  have u: "JUndefined \<notin> {JStr (ascii ''LOW''), JStr (ascii ''MEDIUM''),
      JStr (ascii ''HIGH''), JStr (ascii ''VERY HIGH'')}"
    by simp
  from mapRiskLevel_total h u show ?thesis by blast
qed

text \<open>
  C2 (amended): recommendation classification is substring matching in the fixed order
  \<^verbatim>\<open>STRONG BUY\<close>, then \<^verbatim>\<open>STRONG SELL\<close>, then \<^verbatim>\<open>DO NOT TRADE\<close> or \<^verbatim>\<open>AVOID\<close>, then a fallback
  for every other non-empty string, the first match winning. Every string that contains
  \<^verbatim>\<open>STRONG BUY\<close>, whatever else it contains, gets the class \<^verbatim>\<open>buy\<close> and the action label
  \<^verbatim>\<open>STRONG BUY\<close> followed by a space and the rocket pictograph U+1F680.
\<close>

theorem mapRecommendation_priority:
  "(occursIn (ascii ''STRONG BUY'') s \<longrightarrow>
      mapRecommendation (JStr s) =
        Inr \<lparr>rec_text = ascii ''AI recommends:'', rec_action = ascii ''STRONG BUY '' @ rocket,
             rec_class = ascii ''buy''\<rparr>) \<and>
   (\<not> occursIn (ascii ''STRONG BUY'') s \<and> occursIn (ascii ''STRONG SELL'') s \<longrightarrow>
      mapRecommendation (JStr s) =
        Inr \<lparr>rec_text = ascii ''AI recommends:'', rec_action = ascii ''STRONG SELL '' @ chartDown,
             rec_class = ascii ''sell''\<rparr>) \<and>
   (\<not> occursIn (ascii ''STRONG BUY'') s \<and> \<not> occursIn (ascii ''STRONG SELL'') s \<and>
    (occursIn (ascii ''DO NOT TRADE'') s \<or> occursIn (ascii ''AVOID'') s) \<longrightarrow>
      mapRecommendation (JStr s) =
        Inr \<lparr>rec_text = ascii ''AI recommends:'',
             rec_action = ascii ''DO NOT TRADE '' @ warningSign, rec_class = ascii ''wait''\<rparr>) \<and>
   (s \<noteq> [] \<and> \<not> occursIn (ascii ''STRONG BUY'') s \<and> \<not> occursIn (ascii ''STRONG SELL'') s \<and>
    \<not> occursIn (ascii ''DO NOT TRADE'') s \<and> \<not> occursIn (ascii ''AVOID'') s \<longrightarrow>
      mapRecommendation (JStr s) =
        Inr \<lparr>rec_text = ascii ''AI is analyzing...'', rec_action = ascii ''WAIT FOR SIGNAL'',
             rec_class = ascii ''wait''\<rparr>)"
proof -
  have ne: "occursIn (ascii t) s \<Longrightarrow> t \<noteq> [] \<Longrightarrow> s \<noteq> []" for t
    by (auto simp: occursIn_def ascii_def)
  have buy: "mapRecommendation (JStr s) =
        Inr \<lparr>rec_text = ascii ''AI recommends:'', rec_action = ascii ''STRONG BUY '' @ rocket,
             rec_class = ascii ''buy''\<rparr>"
    if "occursIn (ascii ''STRONG BUY'') s"
  proof -
    from that have "s \<noteq> []" by (rule ne) simp
    moreover from that have "includes_str s (ascii ''STRONG BUY'')"
      by (simp add: occursIn_includes)
    ultimately show ?thesis
      by (simp add: mapRecommendation_def callIncludes_def andThen_def)
  qed
  have sell: "mapRecommendation (JStr s) =
        Inr \<lparr>rec_text = ascii ''AI recommends:'', rec_action = ascii ''STRONG SELL '' @ chartDown,
             rec_class = ascii ''sell''\<rparr>"
    if "\<not> occursIn (ascii ''STRONG BUY'') s" and "occursIn (ascii ''STRONG SELL'') s"
  proof -
    from that(2) have "s \<noteq> []" by (rule ne) simp
    moreover from that have "\<not> includes_str s (ascii ''STRONG BUY'')"
      and "includes_str s (ascii ''STRONG SELL'')"
      by (simp_all add: occursIn_includes)
    ultimately show ?thesis
      by (simp add: mapRecommendation_def callIncludes_def andThen_def)
  qed
  have avoid: "mapRecommendation (JStr s) =
        Inr \<lparr>rec_text = ascii ''AI recommends:'',
             rec_action = ascii ''DO NOT TRADE '' @ warningSign, rec_class = ascii ''wait''\<rparr>"
    if "\<not> occursIn (ascii ''STRONG BUY'') s" and "\<not> occursIn (ascii ''STRONG SELL'') s"
      and "occursIn (ascii ''DO NOT TRADE'') s \<or> occursIn (ascii ''AVOID'') s"
  proof -
    from that(3) have "s \<noteq> []"
    proof
      assume "occursIn (ascii ''DO NOT TRADE'') s"
      then show ?thesis by (rule ne) simp
    next
      assume "occursIn (ascii ''AVOID'') s"
      then show ?thesis by (rule ne) simp
    qed
    moreover from that have "\<not> includes_str s (ascii ''STRONG BUY'')"
      and "\<not> includes_str s (ascii ''STRONG SELL'')"
      and "includes_str s (ascii ''DO NOT TRADE'') \<or> includes_str s (ascii ''AVOID'')"
      by (simp_all add: occursIn_includes)
    ultimately show ?thesis
      by (auto simp add: mapRecommendation_def callIncludes_def andThen_def)
  qed
  have wait: "mapRecommendation (JStr s) =
        Inr \<lparr>rec_text = ascii ''AI is analyzing...'', rec_action = ascii ''WAIT FOR SIGNAL'',
             rec_class = ascii ''wait''\<rparr>"
    if "s \<noteq> []" and "\<not> occursIn (ascii ''STRONG BUY'') s"
      and "\<not> occursIn (ascii ''STRONG SELL'') s"
      and "\<not> occursIn (ascii ''DO NOT TRADE'') s" and "\<not> occursIn (ascii ''AVOID'') s"
    using that by (simp add: mapRecommendation_def callIncludes_def andThen_def occursIn_includes)
  show ?thesis
  proof (intro conjI impI)
    assume "occursIn (ascii ''STRONG BUY'') s"
    then show "mapRecommendation (JStr s) =
        Inr \<lparr>rec_text = ascii ''AI recommends:'', rec_action = ascii ''STRONG BUY '' @ rocket,
             rec_class = ascii ''buy''\<rparr>" by (rule buy)
  next
    assume "\<not> occursIn (ascii ''STRONG BUY'') s \<and> occursIn (ascii ''STRONG SELL'') s"
    then show "mapRecommendation (JStr s) =
        Inr \<lparr>rec_text = ascii ''AI recommends:'', rec_action = ascii ''STRONG SELL '' @ chartDown,
             rec_class = ascii ''sell''\<rparr>" by (intro sell) simp_all
  next
    assume "\<not> occursIn (ascii ''STRONG BUY'') s \<and> \<not> occursIn (ascii ''STRONG SELL'') s \<and>
      (occursIn (ascii ''DO NOT TRADE'') s \<or> occursIn (ascii ''AVOID'') s)"
    then show "mapRecommendation (JStr s) =
        Inr \<lparr>rec_text = ascii ''AI recommends:'',
             rec_action = ascii ''DO NOT TRADE '' @ warningSign, rec_class = ascii ''wait''\<rparr>"
      by (intro avoid) simp_all
  next
    assume "s \<noteq> [] \<and> \<not> occursIn (ascii ''STRONG BUY'') s \<and>
      \<not> occursIn (ascii ''STRONG SELL'') s \<and>
      \<not> occursIn (ascii ''DO NOT TRADE'') s \<and> \<not> occursIn (ascii ''AVOID'') s"
    then show "mapRecommendation (JStr s) =
        Inr \<lparr>rec_text = ascii ''AI is analyzing...'', rec_action = ascii ''WAIT FOR SIGNAL'',
             rec_class = ascii ''wait''\<rparr>"
      by (intro wait) simp_all
  qed
qed

theorem mapRecommendation_priority_witness:
  "occursIn (ascii ''STRONG BUY'') (ascii ''AVOID STRONG SELL, STRONG BUY'') \<and>
   occursIn (ascii ''STRONG SELL'') (ascii ''AVOID STRONG SELL, STRONG BUY'') \<and>
   occursIn (ascii ''AVOID'') (ascii ''AVOID STRONG SELL, STRONG BUY'') \<and>
   mapRecommendation (JStr (ascii ''AVOID STRONG SELL, STRONG BUY'')) =
     Inr \<lparr>rec_text = ascii ''AI recommends:'', rec_action = ascii ''STRONG BUY '' @ rocket,
          rec_class = ascii ''buy''\<rparr> \<and>
   \<not> occursIn (ascii ''STRONG BUY'') (ascii ''STRONG SELL now'') \<and>
   occursIn (ascii ''STRONG SELL'') (ascii ''STRONG SELL now'') \<and>
   mapRecommendation (JStr (ascii ''STRONG SELL now'')) =
     Inr \<lparr>rec_text = ascii ''AI recommends:'', rec_action = ascii ''STRONG SELL '' @ chartDown,
          rec_class = ascii ''sell''\<rparr> \<and>
   \<not> occursIn (ascii ''STRONG BUY'') (ascii ''AVOID this pair'') \<and>
   \<not> occursIn (ascii ''STRONG SELL'') (ascii ''AVOID this pair'') \<and>
   occursIn (ascii ''AVOID'') (ascii ''AVOID this pair'') \<and>
   mapRecommendation (JStr (ascii ''AVOID this pair'')) =
     Inr \<lparr>rec_text = ascii ''AI recommends:'',
          rec_action = ascii ''DO NOT TRADE '' @ warningSign, rec_class = ascii ''wait''\<rparr> \<and>
   ascii ''BUY'' \<noteq> [] \<and>
   \<not> occursIn (ascii ''STRONG BUY'') (ascii ''BUY'') \<and>
   \<not> occursIn (ascii ''STRONG SELL'') (ascii ''BUY'') \<and>
   \<not> occursIn (ascii ''DO NOT TRADE'') (ascii ''BUY'') \<and>
   \<not> occursIn (ascii ''AVOID'') (ascii ''BUY'') \<and>
   mapRecommendation (JStr (ascii ''BUY'')) =
     Inr \<lparr>rec_text = ascii ''AI is analyzing...'', rec_action = ascii ''WAIT FOR SIGNAL'',
          rec_class = ascii ''wait''\<rparr>"
proof -
  have a: "occursIn (ascii ''STRONG BUY'') (ascii ''AVOID STRONG SELL, STRONG BUY'')"
    "occursIn (ascii ''STRONG SELL'') (ascii ''AVOID STRONG SELL, STRONG BUY'')"
    "occursIn (ascii ''AVOID'') (ascii ''AVOID STRONG SELL, STRONG BUY'')"
    by (simp_all add: occursIn_includes ascii_def)
  have b: "\<not> occursIn (ascii ''STRONG BUY'') (ascii ''STRONG SELL now'')"
    "occursIn (ascii ''STRONG SELL'') (ascii ''STRONG SELL now'')"
    by (simp_all add: occursIn_includes ascii_def)
  have c: "\<not> occursIn (ascii ''STRONG BUY'') (ascii ''AVOID this pair'')"
    "\<not> occursIn (ascii ''STRONG SELL'') (ascii ''AVOID this pair'')"
    "occursIn (ascii ''AVOID'') (ascii ''AVOID this pair'')"
    by (simp_all add: occursIn_includes ascii_def)
  have d: "ascii ''BUY'' \<noteq> []"
    "\<not> occursIn (ascii ''STRONG BUY'') (ascii ''BUY'')"
    "\<not> occursIn (ascii ''STRONG SELL'') (ascii ''BUY'')"
    "\<not> occursIn (ascii ''DO NOT TRADE'') (ascii ''BUY'')"
    "\<not> occursIn (ascii ''AVOID'') (ascii ''BUY'')"
    by (simp_all add: occursIn_includes ascii_def)
  note prio = mapRecommendation_priority
  have ra: "mapRecommendation (JStr (ascii ''AVOID STRONG SELL, STRONG BUY'')) =
     Inr \<lparr>rec_text = ascii ''AI recommends:'', rec_action = ascii ''STRONG BUY '' @ rocket,
          rec_class = ascii ''buy''\<rparr>"
    by (rule prio [THEN conjunct1, THEN mp]) (rule a)
  have rb: "mapRecommendation (JStr (ascii ''STRONG SELL now'')) =
     Inr \<lparr>rec_text = ascii ''AI recommends:'', rec_action = ascii ''STRONG SELL '' @ chartDown,
          rec_class = ascii ''sell''\<rparr>"
    by (rule prio [THEN conjunct2, THEN conjunct1, THEN mp]) (intro conjI b)
  have rc: "mapRecommendation (JStr (ascii ''AVOID this pair'')) =
     Inr \<lparr>rec_text = ascii ''AI recommends:'',
          rec_action = ascii ''DO NOT TRADE '' @ warningSign, rec_class = ascii ''wait''\<rparr>"
    by (rule prio [THEN conjunct2, THEN conjunct2, THEN conjunct1, THEN mp])
      (intro conjI disjI2 c)
  have rd: "mapRecommendation (JStr (ascii ''BUY'')) =
     Inr \<lparr>rec_text = ascii ''AI is analyzing...'', rec_action = ascii ''WAIT FOR SIGNAL'',
          rec_class = ascii ''wait''\<rparr>"
    by (rule prio [THEN conjunct2, THEN conjunct2, THEN conjunct2, THEN mp]) (intro conjI d)
  show ?thesis by (intro conjI a b c d ra rb rc rd)
qed

text \<open>
  C2, as the claim states it, fails: the action of a string containing \<^verbatim>\<open>STRONG BUY\<close> is
  not the text \<^verbatim>\<open>STRONG BUY\<close> but that text followed by a space and a pictograph.
\<close>

theorem mapRecommendation_action_counterexample:
  "mapRecommendation (JStr (ascii ''STRONG BUY'')) =
     Inr \<lparr>rec_text = ascii ''AI recommends:'', rec_action = ascii ''STRONG BUY '' @ rocket,
          rec_class = ascii ''buy''\<rparr> \<and>
   ascii ''STRONG BUY '' @ rocket \<noteq> ascii ''STRONG BUY''"
  by (simp add: mapRecommendation_def callIncludes_def andThen_def ascii_def rocket_def)

section \<open>What the handlers leave alone\<close>

lemma withElement_fields [simp]:
  "socket (withElement sl f st) = socket st"
  "isConnected (withElement sl f st) = isConnected st"
  "botRunning (withElement sl f st) = botRunning st"
  "instruments (withElement sl f st) = instruments st"
  "signalsToday (withElement sl f st) = signalsToday st"
  "startTime (withElement sl f st) = startTime st"
  "activityLog (withElement sl f st) = activityLog st"
  by (simp_all add: withElement_def split: option.split)

lemma updateBotControls_fields [simp]:
  "socket (updateBotControls st) = socket st"
  "isConnected (updateBotControls st) = isConnected st"
  "botRunning (updateBotControls st) = botRunning st"
  "instruments (updateBotControls st) = instruments st"
  "signalsToday (updateBotControls st) = signalsToday st"
  "startTime (updateBotControls st) = startTime st"
  "activityLog (updateBotControls st) = activityLog st"
  by (simp_all add: updateBotControls_def split: option.split)

lemma updateConnectionStatus_fields [simp]:
  "socket (updateConnectionStatus s c st) = socket st"
  "isConnected (updateConnectionStatus s c st) = isConnected st"
  "botRunning (updateConnectionStatus s c st) = botRunning st"
  "instruments (updateConnectionStatus s c st) = instruments st"
  "signalsToday (updateConnectionStatus s c st) = signalsToday st"
  "startTime (updateConnectionStatus s c st) = startTime st"
  "activityLog (updateConnectionStatus s c st) = activityLog st"
  by (simp_all add: updateConnectionStatus_def)

lemma updateSignalIndicator_fields [simp]:
  "socket (updateSignalIndicator t s st) = socket st"
  "isConnected (updateSignalIndicator t s st) = isConnected st"
  "botRunning (updateSignalIndicator t s st) = botRunning st"
  "instruments (updateSignalIndicator t s st) = instruments st"
  "signalsToday (updateSignalIndicator t s st) = signalsToday st"
  "startTime (updateSignalIndicator t s st) = startTime st"
  "activityLog (updateSignalIndicator t s st) = activityLog st"
  by (simp_all add: updateSignalIndicator_def split: option.split)

lemma repaints_refl: "repaints st st"
  unfolding repaints_def by (rule exI [of _ "page st"]) simp

lemma repaints_trans: "repaints st st' \<Longrightarrow> repaints st' st'' \<Longrightarrow> repaints st st''"
  unfolding repaints_def by auto

lemma repaints_fields:
  assumes "repaints st st'"
  shows "socket st' = socket st" "isConnected st' = isConnected st"
    "botRunning st' = botRunning st" "instruments st' = instruments st"
    "signalsToday st' = signalsToday st" "startTime st' = startTime st"
    "activityLog st' = activityLog st"
  using assms unfolding repaints_def by auto

lemma repaints_withElement: "repaints st (withElement sl f st)"
proof (cases "page st sl")
  case None
  then show ?thesis by (simp add: withElement_def repaints_refl)
next
  case (Some el)
  then show ?thesis unfolding repaints_def withElement_def by auto
qed

lemma repaints_writePriceAndRisk: "repaints st (writePriceAndRisk p d st)"
  unfolding writePriceAndRisk_def
  by (cases "card_price d \<noteq> ascii ''Multiple Pairs''")
    (auto intro: repaints_withElement repaints_trans)

lemma repaints_writeConfidence: "writeConfidence E p c st = Inr st' \<Longrightarrow> repaints st st'"
  unfolding writeConfidence_def andThen_def
  by (auto intro: repaints_withElement repaints_refl split: if_splits sum.splits)

lemma repaints_writeConfidenceBar: "writeConfidenceBar E p c st = Inr st' \<Longrightarrow> repaints st st'"
  unfolding writeConfidenceBar_def andThen_def
  by (auto intro: repaints_withElement repaints_refl split: if_splits sum.splits)

lemma repaints_writeRecommendation: "repaints st (writeRecommendation p r st)"
  unfolding writeRecommendation_def
  by (cases "page st (Id (p @ ''-recommendation''))")
    (auto intro: repaints_withElement repaints_trans repaints_refl)

lemma repaints_updateCryptoCard: "repaints st (fst (updateCryptoCard E p d st))"
proof -
  let ?st2 = "writePriceAndRisk p d st"
  have r2: "repaints st ?st2" by (rule repaints_writePriceAndRisk)
  show ?thesis
  proof (cases "writeConfidence E p (card_confidence d) ?st2")
    case (Inl e)
    with r2 show ?thesis by (simp add: updateCryptoCard_def Let_def)
  next
    case c: (Inr st3)
    then have r3: "repaints st st3"
      using r2 repaints_writeConfidence repaints_trans by blast
    show ?thesis
    proof (cases "writeConfidenceBar E p (card_confidence d) st3")
      case (Inl e)
      with c r3 show ?thesis by (simp add: updateCryptoCard_def Let_def)
    next
      case b: (Inr st4)
      then have "repaints st st4"
        using r3 repaints_writeConfidenceBar repaints_trans by blast
      then have "repaints st (writeRecommendation p (card_recommendation d) st4)"
        using repaints_writeRecommendation repaints_trans by blast
      with c b show ?thesis by (simp add: updateCryptoCard_def Let_def)
    qed
  qed
qed

lemma updateCryptoCard_fields [simp]:
  "socket (fst (updateCryptoCard E p d st)) = socket st"
  "isConnected (fst (updateCryptoCard E p d st)) = isConnected st"
  "botRunning (fst (updateCryptoCard E p d st)) = botRunning st"
  "instruments (fst (updateCryptoCard E p d st)) = instruments st"
  "signalsToday (fst (updateCryptoCard E p d st)) = signalsToday st"
  "startTime (fst (updateCryptoCard E p d st)) = startTime st"
  "activityLog (fst (updateCryptoCard E p d st)) = activityLog st"
  by (rule repaints_fields [OF repaints_updateCryptoCard])+

lemma renderStats_fields [simp]:
  "socket (renderStats st) = socket st"
  "isConnected (renderStats st) = isConnected st"
  "botRunning (renderStats st) = botRunning st"
  "instruments (renderStats st) = instruments st"
  "signalsToday (renderStats st) = signalsToday st"
  "startTime (renderStats st) = startTime st"
  "activityLog (renderStats st) = activityLog st"
  by (simp_all add: renderStats_def Let_def)

lemma addLogEntry_fields [simp]:
  "socket (addLogEntry t m st) = socket st"
  "isConnected (addLogEntry t m st) = isConnected st"
  "botRunning (addLogEntry t m st) = botRunning st"
  "instruments (addLogEntry t m st) = instruments st"
  "signalsToday (addLogEntry t m st) = signalsToday st"
  "startTime (addLogEntry t m st) = startTime st"
  "page (addLogEntry t m st) = page st"
  by (simp_all add: addLogEntry_def split: option.split)

lemma emit_fields [simp]:
  "isConnected (emit n st) = isConnected st"
  "botRunning (emit n st) = botRunning st"
  "instruments (emit n st) = instruments st"
  "signalsToday (emit n st) = signalsToday st"
  "startTime (emit n st) = startTime st"
  "page (emit n st) = page st"
  "activityLog (emit n st) = activityLog st"
  by (simp_all add: emit_def)


lemma collect_error: "(collect rs = Inl TypeError) = (Inl TypeError \<in> set rs)"
proof (induction rs)
  case Nil
  show ?case by simp
next
  case (Cons r rs)
  show ?case
  proof (cases r)
    case (Inl e)
    then show ?thesis by (cases e) simp
  next
    case (Inr x)
    with Cons.IH show ?thesis by (auto split: sum.split)
  qed
qed

lemma toStringJS_error: "(toStringJS E v = Inl TypeError) = unprintable v"
proof (induction E v rule: toStringJS.induct)
  case (6 E vs)
  let ?rs = "map (\<lambda>v. if nullish v then Inr [] else toStringJS E v) vs"
  have "(toStringJS E (JArr vs) = Inl TypeError) = (collect ?rs = Inl TypeError)"
  proof (cases "collect ?rs")
    case (Inl e)
    then show ?thesis by (cases e) simp
  next
    case (Inr ss)
    then show ?thesis by simp
  qed
  also have "\<dots> = (Inl TypeError \<in> set ?rs)"
    by (rule collect_error)
  also have "\<dots> =
      (\<exists>v \<in> set vs. Inl TypeError = (if nullish v then Inr [] else toStringJS E v))"
    unfolding set_map image_iff ..
  also have "\<dots> = (\<exists>v \<in> set vs. \<not> nullish v \<and> toStringJS E v = Inl TypeError)"
    by (rule bex_cong [OF refl]) auto
  also have "\<dots> = (\<exists>v \<in> set vs. \<not> nullish v \<and> unprintable v)"
    using "6.IH" by blast
  also have "\<dots> = (\<exists>v \<in> set vs. unprintable v)"
  proof (rule bex_cong [OF refl])
    fix v
    show "(\<not> nullish v \<and> unprintable v) = unprintable v"
      by (cases v) (simp_all add: nullish_def)
  qed
  finally show ?case by (simp add: list_ex_iff)
next
  case (7 E kvs)
  show ?case by (simp add: map_of_eq_None_iff)
qed simp_all



lemma printable_cases:
  assumes "\<not> unprintable c"
  obtains t where "toStringJS E c = Inr t"
proof (cases "toStringJS E c")
  case (Inl e)
  then have "toStringJS E c = Inl TypeError" by (cases e) simp
  with assms toStringJS_error [of E c] show ?thesis by simp
next
  case (Inr t)
  then show ?thesis by (rule that)
qed

lemma updateCryptoCard_completes:
  "\<not> unprintable (card_confidence data) \<Longrightarrow> snd (updateCryptoCard E prefix data st) = None"
proof -
  assume "\<not> unprintable (card_confidence data)"
  then obtain t where t: "toStringJS E (card_confidence data) = Inr t"
    by (rule printable_cases)
  then obtain x where x: "percentage E (card_confidence data) = Inr x"
    by (simp add: percentage_def andThen_def Let_def)
  from t obtain u where u: "domString E (card_confidence data) = Inr u"
    by (cases "nullish (card_confidence data)") (simp_all add: domString_def)
  show ?thesis
    by (simp add: updateCryptoCard_def Let_def writeConfidence_def writeConfidenceBar_def
        andThen_def u x)
qed

lemma of_char_word_eq: "((of_char c :: 16 word) = of_char d) = (c = d)"
proof
  assume a: "(of_char c :: 16 word) = of_char d"
  have u: "unat (of_char x :: 16 word) = of_char x" for x
  proof -
    have "(of_char x :: nat) mod 256 < 256" by (rule mod_less_divisor) simp
    then have "(of_char x :: nat) < 256" by (simp only: of_char_mod_256)
    then have "(of_char x :: nat) < 65536" by (rule less_trans) simp
    then have "(of_char x :: nat) mod 2 ^ LENGTH(16) = of_char x" by simp
    then have "unat (of_nat (of_char x) :: 16 word) = of_char x"
      by (simp only: unat_of_nat)
    then show ?thesis by (simp only: of_nat_of_char)
  qed
  from a have "unat (of_char c :: 16 word) = unat (of_char d :: 16 word)" by simp
  then have "(of_char c :: nat) = of_char d" by (simp only: u)
  then show "c = d" by simp
qed simp

lemma ascii_eq: "(ascii s = ascii t) = (s = t)"
  unfolding ascii_def
  by (rule inj_map_eq_map) (simp add: inj_on_def of_char_word_eq)

lemma ascii_Nil: "(ascii s = []) = (s = [])"
  by (simp add: ascii_def)

lemma sellInstruments_cards: "snd (updateCryptoCards integerEnv sellInstruments st) = None"
proof -
  have p: "\<not> unprintable (JStr (ascii ''60%''))" "\<not> unprintable (JStr (ascii ''0%''))"
    by simp_all
  have r: "mapRecommendation (JStr (ascii ''STRONG SELL now'')) =
      Inr \<lparr>rec_text = ascii ''AI recommends:'', rec_action = ascii ''STRONG SELL '' @ chartDown,
           rec_class = ascii ''sell''\<rparr>"
    by (simp add: mapRecommendation_def callIncludes_def andThen_def ascii_def)
  have u: "mapRecommendation JUndefined =
      Inr \<lparr>rec_text = ascii ''Collecting market data...'', rec_action = [], rec_class = []\<rparr>"
    by (simp add: mapRecommendation_def)
  show ?thesis
    by (simp add: updateCryptoCards_def sellInstruments_def getProp_def nullish_def orElse_def
        optProp_def priceText_def andThen_def Let_def ascii_eq ascii_Nil r u
        case_prod_unfold updateCryptoCard_completes p)
qed

lemma emptyInstruments_cards: "snd (updateCryptoCards E (JObj []) st) = None"
proof -
  have p: "\<not> unprintable (JStr (ascii ''0%''))" by simp
  have u: "mapRecommendation JUndefined =
      Inr \<lparr>rec_text = ascii ''Collecting market data...'', rec_action = [], rec_class = []\<rparr>"
    by (simp add: mapRecommendation_def)
  show ?thesis
    by (simp add: updateCryptoCards_def getProp_def nullish_def orElse_def optProp_def
        priceText_def Let_def case_prod_unfold u ascii_Nil
        updateCryptoCard_completes p)
qed

lemma sellInstruments_truthy: "truthy sellInstruments"
  by (simp add: sellInstruments_def)

lemma sellInstruments_signals: "countSignals (objectValues sellInstruments) 0 = Inr 1"
  by (simp add: sellInstruments_def getProp_def nullish_def ascii_eq ascii_Nil)

lemma fst_updateCryptoCards:
  "fst (updateCryptoCards E insts st) = st \<or>
   (\<exists>d. fst (updateCryptoCards E insts st) = fst (updateCryptoCard E ''btc'' d st)) \<or>
   (\<exists>d d'. fst (updateCryptoCards E insts st) =
      fst (updateCryptoCard E ''alt'' d' (fst (updateCryptoCard E ''btc'' d st))))"
proof (cases "getProp insts (ascii ''EUR_USD'')")
  case (Inl e)
  then show ?thesis by (simp add: updateCryptoCards_def)
next
  case btc: (Inr btc)
  let ?btcData = "orElse btc (JObj [])"
  let ?btcTrade = "member ?btcData (ascii ''active_trade'')"
  show ?thesis
  proof (cases "priceText E (member ?btcData (ascii ''price''))")
    case (Inl e)
    with btc show ?thesis by (simp add: updateCryptoCards_def Let_def)
  next
    case price: (Inr btcPrice)
    show ?thesis
    proof (cases "mapRecommendation (optProp ?btcTrade (ascii ''recommendation''))")
      case (Inl e)
      with btc price show ?thesis by (simp add: updateCryptoCards_def Let_def)
    next
      case brec: (Inr btcRec)
      let ?d = "\<lparr>card_price = btcPrice,
          card_risk = mapRiskLevel (optProp ?btcTrade (ascii ''risk_level'')),
          card_confidence =
            orElse (optProp ?btcTrade (ascii ''confidence'')) (JStr (ascii ''0%'')),
          card_recommendation = btcRec\<rparr>"
      obtain st1 r where card: "updateCryptoCard E ''btc'' ?d st = (st1, r)"
        by (cases "updateCryptoCard E ''btc'' ?d st") auto
      then have st1: "st1 = fst (updateCryptoCard E ''btc'' ?d st)" by simp
      show ?thesis
      proof (cases r)
        case (Some e)
        with btc price brec card have "fst (updateCryptoCards E insts st) = st1"
          by (simp add: updateCryptoCards_def Let_def)
        with st1 show ?thesis by blast
      next
        case None
        show ?thesis
        proof (cases "getProp insts (ascii ''USD_JPY'')")
          case (Inl e)
          with btc price brec card None have "fst (updateCryptoCards E insts st) = st1"
            by (simp add: updateCryptoCards_def Let_def)
          with st1 show ?thesis by blast
        next
          case alt: (Inr alt)
          let ?altTrade = "member (orElse alt (JObj [])) (ascii ''active_trade'')"
          show ?thesis
          proof (cases "mapRecommendation (optProp ?altTrade (ascii ''recommendation''))")
            case (Inl e)
            with btc price brec card None alt
            have "fst (updateCryptoCards E insts st) = st1"
              by (simp add: updateCryptoCards_def Let_def)
            with st1 show ?thesis by blast
          next
            case (Inr altRec)
            with btc price brec card None alt
            have "\<exists>d'. fst (updateCryptoCards E insts st) =
                fst (updateCryptoCard E ''alt'' d' st1)"
              by (simp add: updateCryptoCards_def Let_def) blast
            with st1 show ?thesis by blast
          qed
        qed
      qed
    qed
  qed
qed

lemma repaints_updateCryptoCards: "repaints st (fst (updateCryptoCards E insts st))"
  using fst_updateCryptoCards [of E insts st]
  by (auto intro: repaints_refl repaints_updateCryptoCard
      repaints_trans [OF repaints_updateCryptoCard repaints_updateCryptoCard])

lemma updateCryptoCards_fields [simp]:
  "socket (fst (updateCryptoCards E insts st)) = socket st"
  "isConnected (fst (updateCryptoCards E insts st)) = isConnected st"
  "botRunning (fst (updateCryptoCards E insts st)) = botRunning st"
  "instruments (fst (updateCryptoCards E insts st)) = instruments st"
  "signalsToday (fst (updateCryptoCards E insts st)) = signalsToday st"
  "startTime (fst (updateCryptoCards E insts st)) = startTime st"
  "activityLog (fst (updateCryptoCards E insts st)) = activityLog st"
  by (rule repaints_fields [OF repaints_updateCryptoCards])+

lemma updateStats_fields [simp]:
  "socket (fst (updateStats data st)) = socket st"
  "isConnected (fst (updateStats data st)) = isConnected st"
  "botRunning (fst (updateStats data st)) = botRunning st"
  "instruments (fst (updateStats data st)) = instruments st"
  "startTime (fst (updateStats data st)) = startTime st"
  "activityLog (fst (updateStats data st)) = activityLog st"
  by (simp_all add: updateStats_def Let_def split: sum.split)

lemma updateStats_signalsToday:
  "signalsToday (fst (updateStats data st)) =
     (case getProp data (ascii ''instruments'') of
        Inl e \<Rightarrow> signalsToday st
      | Inr insts \<Rightarrow>
          if truthy insts then
            (case countSignals (objectValues insts) 0 of
               Inl e \<Rightarrow> signalsToday st
             | Inr n \<Rightarrow> max (signalsToday st) n)
          else signalsToday st)"
  by (simp add: updateStats_def Let_def max_def split: sum.split)

lemma fst_updateDashboard:
  "fst (updateDashboard E data st) =
     (case getProp data (ascii ''instruments'') of
        Inl e \<Rightarrow> st
      | Inr insts \<Rightarrow>
          if truthy insts then
            (case snd (updateCryptoCards E insts (st\<lparr>instruments := insts\<rparr>)) of
               Some e \<Rightarrow> fst (updateCryptoCards E insts (st\<lparr>instruments := insts\<rparr>))
             | None \<Rightarrow>
                 fst (updateStats data
                        (fst (updateCryptoCards E insts (st\<lparr>instruments := insts\<rparr>)))))
          else st)"
  by (simp add: updateDashboard_def split: sum.split prod.split option.split)

lemma updateDashboard_fields [simp]:
  "socket (fst (updateDashboard E data st)) = socket st"
  "isConnected (fst (updateDashboard E data st)) = isConnected st"
  "botRunning (fst (updateDashboard E data st)) = botRunning st"
  "startTime (fst (updateDashboard E data st)) = startTime st"
  "activityLog (fst (updateDashboard E data st)) = activityLog st"
  by (simp_all add: fst_updateDashboard split: sum.split option.split)

lemma updateDashboard_signalsToday:
  "signalsToday (fst (updateDashboard E data st)) = signalsToday st \<or>
   (\<exists>insts n. getProp data (ascii ''instruments'') = Inr insts \<and> truthy insts \<and>
      countSignals (objectValues insts) 0 = Inr n \<and> signalsToday st < n \<and>
      signalsToday (fst (updateDashboard E data st)) = n)"
  by (auto simp add: fst_updateDashboard updateStats_signalsToday max_def
      split: sum.split option.split)

lemma startBot_fields [simp]:
  "isConnected (startBot t st) = isConnected st"
  "botRunning (startBot t st) = botRunning st"
  "instruments (startBot t st) = instruments st"
  "signalsToday (startBot t st) = signalsToday st"
  "startTime (startBot t st) = startTime st"
  "page (startBot t st) = page st"
  by (simp_all add: startBot_def)

lemma stopBot_fields [simp]:
  "isConnected (stopBot t st) = isConnected st"
  "botRunning (stopBot t st) = botRunning st"
  "instruments (stopBot t st) = instruments st"
  "signalsToday (stopBot t st) = signalsToday st"
  "startTime (stopBot t st) = startTime st"
  "page (stopBot t st) = page st"
  by (simp_all add: stopBot_def)

lemma tick_fields [simp]:
  "socket (tick now st) = socket st"
  "isConnected (tick now st) = isConnected st"
  "botRunning (tick now st) = botRunning st"
  "instruments (tick now st) = instruments st"
  "signalsToday (tick now st) = signalsToday st"
  "startTime (tick now st) = startTime st"
  "activityLog (tick now st) = activityLog st"
  by (simp_all add: tick_def Let_def split: option.split)

lemma onConnect_fields [simp]:
  "socket (onConnect st) = socket st"
  "isConnected (onConnect st) = True"
  "botRunning (onConnect st) = botRunning st"
  "signalsToday (onConnect st) = signalsToday st"
  "startTime (onConnect st) = startTime st"
  "activityLog (onConnect st) = activityLog st"
  by (simp_all add: onConnect_def)

lemma onDisconnect_fields [simp]:
  "socket (onDisconnect st) = socket st"
  "isConnected (onDisconnect st) = False"
  "botRunning (onDisconnect st) = botRunning st"
  "signalsToday (onDisconnect st) = signalsToday st"
  "startTime (onDisconnect st) = startTime st"
  "activityLog (onDisconnect st) = activityLog st"
  by (simp_all add: onDisconnect_def)

lemma onBotStarted_fields [simp]:
  "socket (onBotStarted now t st) = socket st"
  "isConnected (onBotStarted now t st) = isConnected st"
  "botRunning (onBotStarted now t st) = True"
  "signalsToday (onBotStarted now t st) = signalsToday st"
  "startTime (onBotStarted now t st) = Some now"
  by (simp_all add: onBotStarted_def)

lemma onBotStopped_fields [simp]:
  "socket (onBotStopped t st) = socket st"
  "isConnected (onBotStopped t st) = isConnected st"
  "botRunning (onBotStopped t st) = False"
  "signalsToday (onBotStopped t st) = signalsToday st"
  "startTime (onBotStopped t st) = None"
  by (simp_all add: onBotStopped_def)

lemma loadInitialStatus_fields [simp]:
  "socket (loadInitialStatus E r now st) = socket st"
  "isConnected (loadInitialStatus E r now st) = isConnected st"
  "activityLog (loadInitialStatus E r now st) = activityLog st"
  by (simp_all add: loadInitialStatus_def Let_def split: option.split sum.split)

lemma loadInitialStatus_running:
  "(botRunning (loadInitialStatus E r now st), startTime (loadInitialStatus E r now st)) =
     (botRunning st, startTime st) \<or>
   (botRunning (loadInitialStatus E r now st), startTime (loadInitialStatus E r now st)) =
     (True, Some now)"
  by (simp add: loadInitialStatus_def Let_def split: option.split sum.split)

section \<open>Snapshots\<close>

text \<open>
  C3: a snapshot that has no \<^verbatim>\<open>instruments\<close> property changes nothing. \<^verbatim>\<open>updateDashboard\<close>,
  and so the \<^verbatim>\<open>status_update\<close> handler, returns without throwing and leaves the whole
  state as it was: the page, with the price, risk, confidence and recommendation it
  shows, and the stored instruments.
\<close>

theorem updateDashboard_without_instruments:
  "map_of kvs (ascii ''instruments'') = None \<Longrightarrow>
     updateDashboard E (JObj kvs) st = (st, None) \<and>
     handle E (StatusUpdate (JObj kvs)) st = (st, None)"
  by (simp add: updateDashboard_def getProp_def nullish_def)

theorem updateDashboard_without_instruments_witness:
  "map_of [(ascii ''bot_running'', JBool True)] (ascii ''instruments'') = None \<and>
   updateDashboard integerEnv (JObj [(ascii ''bot_running'', JBool True)])
     (fst (updateDashboard integerEnv sellSnapshot (newBot True fullPage (Some [])))) =
     (fst (updateDashboard integerEnv sellSnapshot (newBot True fullPage (Some []))), None) \<and>
   handle integerEnv (StatusUpdate (JObj [(ascii ''bot_running'', JBool True)]))
     (fst (updateDashboard integerEnv sellSnapshot (newBot True fullPage (Some [])))) =
     (fst (updateDashboard integerEnv sellSnapshot (newBot True fullPage (Some []))), None)"
proof -
  have h: "map_of [(ascii ''bot_running'', JBool True)] (ascii ''instruments'') = None"
    by (simp add: ascii_def)
  from h updateDashboard_without_instruments [OF h] show ?thesis by simp
qed

text \<open>
  C10: applying a snapshot never changes \<open>botRunning\<close>, whatever the snapshot carries and
  whether or not the update throws; the only events that can change it are \<^verbatim>\<open>bot_started\<close>,
  \<^verbatim>\<open>bot_stopped\<close> and the settled status request.
\<close>

theorem status_update_keeps_botRunning:
  "botRunning (fst (updateDashboard E data st)) = botRunning st \<and>
   botRunning (fst (handle E (StatusUpdate data) st)) = botRunning st \<and>
   (botRunning (fst (handle E ev st)) \<noteq> botRunning st \<longrightarrow>
      (\<exists>now timestamp. ev = BotStarted now timestamp) \<or>
      (\<exists>timestamp. ev = BotStopped timestamp) \<or>
      (\<exists>response now. ev = StatusLoaded response now))"
  by (cases ev) simp_all

theorem status_update_keeps_botRunning_witness:
  "botRunning (fst (updateDashboard integerEnv sellSnapshot (newBot True fullPage (Some []))))
     = botRunning (newBot True fullPage (Some [])) \<and>
   botRunning (fst (handle integerEnv (StatusUpdate sellSnapshot)
      (newBot True fullPage (Some [])))) = botRunning (newBot True fullPage (Some [])) \<and>
   botRunning (newBot True fullPage (Some [])) = False \<and>
   botRunning (fst (handle integerEnv (BotStarted 1000 (ascii ''12:00:00''))
      (newBot True fullPage (Some [])))) \<noteq> botRunning (newBot True fullPage (Some [])) \<and>
   ((\<exists>now timestamp. BotStarted 1000 (ascii ''12:00:00'') = BotStarted now timestamp) \<or>
    (\<exists>timestamp. BotStarted 1000 (ascii ''12:00:00'') = BotStopped timestamp) \<or>
    (\<exists>response now. BotStarted 1000 (ascii ''12:00:00'') = StatusLoaded response now))"
proof -
  have f: "botRunning (newBot True fullPage (Some [])) = False"
    by (simp add: newBot_def)
  have h: "botRunning (fst (handle integerEnv (BotStarted 1000 (ascii ''12:00:00''))
      (newBot True fullPage (Some [])))) \<noteq> botRunning (newBot True fullPage (Some []))"
    by (simp add: newBot_def)
  from f h status_update_keeps_botRunning [of integerEnv sellSnapshot
      "newBot True fullPage (Some [])" "BotStarted 1000 (ascii ''12:00:00'')"]
  show ?thesis by (intro conjI) simp_all
qed

lemma loadInitialStatus_signalsToday:
  "signalsToday (loadInitialStatus E response now st) = signalsToday st \<or>
   (\<exists>data insts n. response = Some data \<and>
      getProp data (ascii ''instruments'') = Inr insts \<and> truthy insts \<and>
      countSignals (objectValues insts) 0 = Inr n \<and> signalsToday st < n \<and>
      signalsToday (loadInitialStatus E response now st) = n)"
proof (cases response)
  case None
  then show ?thesis by (simp add: loadInitialStatus_def)
next
  case (Some data)
  show ?thesis
  proof (cases "getProp data (ascii ''bot_running'')")
    case (Inl e)
    with Some show ?thesis by (simp add: loadInitialStatus_def)
  next
    case (Inr running)
    define st1 where "st1 = updateBotControls
      (if truthy running then
         updateSignalIndicator (rocket @ ascii '' Bot Active - Scanning Markets...'') ''active''
           (st\<lparr>botRunning := True, startTime := Some now\<rparr>)
       else st)"
    have s1: "signalsToday st1 = signalsToday st" by (simp add: st1_def)
    have l: "loadInitialStatus E response now st = fst (updateDashboard E data st1)"
      using Some Inr by (simp add: loadInitialStatus_def st1_def Let_def)
    from updateDashboard_signalsToday [of E data st1] show ?thesis
      unfolding l s1 using Some by auto
  qed
qed

lemma handle_signalsToday:
  "signalsToday (fst (handle E ev st)) = signalsToday st \<or>
   (\<exists>data insts n.
      (ev = StatusUpdate data \<or> (\<exists>now. ev = StatusLoaded (Some data) now)) \<and>
      getProp data (ascii ''instruments'') = Inr insts \<and> truthy insts \<and>
      countSignals (objectValues insts) 0 = Inr n \<and> signalsToday st < n \<and>
      signalsToday (fst (handle E ev st)) = n)"
proof (cases ev)
  case (StatusUpdate data)
  with updateDashboard_signalsToday [of E data st] show ?thesis by auto
next
  case (StatusLoaded response now)
  with loadInitialStatus_signalsToday [of E response now st] show ?thesis by auto
qed simp_all

lemma handle_signalsToday_le: "signalsToday st \<le> signalsToday (fst (handle E ev st))"
  using handle_signalsToday [of E ev st] by auto

lemma run_signalsToday_le: "signalsToday st \<le> signalsToday (run E evs st)"
proof (induction evs arbitrary: st)
  case Nil
  show ?case by simp
next
  case (Cons ev evs)
  have "signalsToday st \<le> signalsToday (fst (handle E ev st))"
    by (rule handle_signalsToday_le)
  also have "\<dots> \<le> signalsToday (run E evs (fst (handle E ev st)))"
    by (rule Cons.IH)
  finally show ?case by simp
qed

text \<open>
  C7: \<open>signalsToday\<close> never decreases, over one event and over any sequence of events.
  When an event changes it, the event applied a snapshot whose truthy \<^verbatim>\<open>instruments\<close> hold
  more instruments with an active-trade recommendation than the counter had, and the
  counter is that number afterwards.
\<close>

theorem signalsToday_monotone:
  "signalsToday st \<le> signalsToday (fst (handle E ev st)) \<and>
   signalsToday st \<le> signalsToday (run E evs st) \<and>
   (signalsToday (fst (handle E ev st)) \<noteq> signalsToday st \<longrightarrow>
      (\<exists>data insts n.
         (ev = StatusUpdate data \<or> (\<exists>now. ev = StatusLoaded (Some data) now)) \<and>
         getProp data (ascii ''instruments'') = Inr insts \<and> truthy insts \<and>
         countSignals (objectValues insts) 0 = Inr n \<and> signalsToday st < n \<and>
         signalsToday (fst (handle E ev st)) = n))"
  using handle_signalsToday [of E ev st] handle_signalsToday_le [of st E ev]
    run_signalsToday_le [of st E evs]
  by blast

theorem signalsToday_monotone_witness:
  "signalsToday (newBot True fullPage (Some [])) = 0 \<and>
   signalsToday (fst (handle integerEnv (StatusUpdate sellSnapshot)
      (newBot True fullPage (Some [])))) = 1 \<and>
   signalsToday (fst (handle integerEnv (StatusUpdate sellSnapshot)
      (newBot True fullPage (Some [])))) \<noteq> signalsToday (newBot True fullPage (Some [])) \<and>
   (\<exists>data insts n.
      (StatusUpdate sellSnapshot = StatusUpdate data \<or>
       (\<exists>now. StatusUpdate sellSnapshot = StatusLoaded (Some data) now)) \<and>
      getProp data (ascii ''instruments'') = Inr insts \<and> truthy insts \<and>
      countSignals (objectValues insts) 0 = Inr n \<and>
      signalsToday (newBot True fullPage (Some [])) < n \<and>
      signalsToday (fst (handle integerEnv (StatusUpdate sellSnapshot)
        (newBot True fullPage (Some [])))) = n) \<and>
   signalsToday (run integerEnv
      [StatusUpdate sellSnapshot, StatusUpdate (JObj [(ascii ''instruments'', JObj [])])]
      (newBot True fullPage (Some []))) = 1 \<and>
   signalsToday (newBot True fullPage (Some [])) \<le>
     signalsToday (run integerEnv
       [StatusUpdate sellSnapshot, StatusUpdate (JObj [(ascii ''instruments'', JObj [])])]
       (newBot True fullPage (Some [])))"
proof -
  have z: "signalsToday (newBot True fullPage (Some [])) = 0"
    by (simp add: newBot_def)
  have one: "signalsToday (fst (handle integerEnv (StatusUpdate sellSnapshot)
      (newBot True fullPage (Some [])))) = 1"
    using z
    by (simp add: fst_updateDashboard updateStats_signalsToday sellSnapshot_def getProp_def
      nullish_def sellInstruments_cards sellInstruments_signals sellInstruments_truthy
      ascii_eq)
  have h: "signalsToday (fst (handle integerEnv (StatusUpdate sellSnapshot)
      (newBot True fullPage (Some [])))) \<noteq> signalsToday (newBot True fullPage (Some []))"
    using z one by simp
  have two: "signalsToday (run integerEnv
      [StatusUpdate sellSnapshot, StatusUpdate (JObj [(ascii ''instruments'', JObj [])])]
      (newBot True fullPage (Some []))) = 1"
    using one
    by (simp add: fst_updateDashboard updateStats_signalsToday getProp_def
      nullish_def emptyInstruments_cards ascii_eq)
  note mono = signalsToday_monotone [of "newBot True fullPage (Some [])" integerEnv
      "StatusUpdate sellSnapshot"
      "[StatusUpdate sellSnapshot, StatusUpdate (JObj [(ascii ''instruments'', JObj [])])]"]
  from mono h have ex: "\<exists>data insts n.
      (StatusUpdate sellSnapshot = StatusUpdate data \<or>
       (\<exists>now. StatusUpdate sellSnapshot = StatusLoaded (Some data) now)) \<and>
      getProp data (ascii ''instruments'') = Inr insts \<and> truthy insts \<and>
      countSignals (objectValues insts) 0 = Inr n \<and>
      signalsToday (newBot True fullPage (Some [])) < n \<and>
      signalsToday (fst (handle integerEnv (StatusUpdate sellSnapshot)
        (newBot True fullPage (Some [])))) = n"
    by blast
  from mono have le: "signalsToday (newBot True fullPage (Some [])) \<le>
     signalsToday (run integerEnv
       [StatusUpdate sellSnapshot, StatusUpdate (JObj [(ascii ''instruments'', JObj [])])]
       (newBot True fullPage (Some [])))"
    by blast
  show ?thesis by (intro conjI z one h ex two le)
qed

section \<open>Run state and start time\<close>

lemma newBot_fields [simp]:
  "isConnected (newBot ioOk pg lg) = False"
  "botRunning (newBot ioOk pg lg) = False"
  "signalsToday (newBot ioOk pg lg) = 0"
  "startTime (newBot ioOk pg lg) = None"
  "activityLog (newBot ioOk pg lg) = lg"
  "socket (newBot ioOk pg lg) = (if ioOk then Some [] else None)"
  by (simp_all add: newBot_def Let_def)

lemma handle_running:
  "(botRunning (fst (handle E ev st)), startTime (fst (handle E ev st))) =
     (botRunning st, startTime st) \<or>
   (\<exists>now. botRunning (fst (handle E ev st)) \<and> startTime (fst (handle E ev st)) = Some now \<and>
      ((\<exists>timestamp. ev = BotStarted now timestamp) \<or>
       (\<exists>response. ev = StatusLoaded response now))) \<or>
   (\<not> botRunning (fst (handle E ev st)) \<and> startTime (fst (handle E ev st)) = None \<and>
      (\<exists>timestamp. ev = BotStopped timestamp))"
proof (cases ev)
  case (StatusLoaded response now)
  with loadInitialStatus_running [of E response now st] show ?thesis by auto
qed simp_all

lemma reachable_running: "reachable E st \<Longrightarrow> (startTime st \<noteq> None) = botRunning st"
proof (induction rule: reachable.induct)
  case (start ioOk pg lg)
  show ?case by simp
next
  case (step st ev)
  with handle_running [of E ev st] show ?case by auto
qed

lemma tick_stopped: "startTime st = None \<Longrightarrow> tick now st = st"
  by (simp add: tick_def)

text \<open>
  C9: in every reachable state \<open>startTime\<close> is set exactly when \<open>botRunning\<close> is true, so
  the timer, which does nothing while \<open>startTime\<close> is \<^verbatim>\<open>null\<close>, uses it only while the bot
  runs. An event that changes \<open>startTime\<close> either sets it to the current time together
  with \<open>botRunning\<close> (\<^verbatim>\<open>bot_started\<close>, or the settled status request), or clears it
  together with \<open>botRunning\<close> (\<^verbatim>\<open>bot_stopped\<close>).
\<close>

theorem startTime_iff_botRunning:
  "(reachable E st \<longrightarrow> (startTime st \<noteq> None) = botRunning st) \<and>
   (reachable E st \<and> \<not> botRunning st \<longrightarrow> tick now st = st) \<and>
   (startTime (fst (handle E ev st)) \<noteq> startTime st \<longrightarrow>
      (\<exists>t. botRunning (fst (handle E ev st)) \<and> startTime (fst (handle E ev st)) = Some t \<and>
         ((\<exists>timestamp. ev = BotStarted t timestamp) \<or>
          (\<exists>response. ev = StatusLoaded response t))) \<or>
      (\<not> botRunning (fst (handle E ev st)) \<and> startTime (fst (handle E ev st)) = None \<and>
         (\<exists>timestamp. ev = BotStopped timestamp)))"
proof (intro conjI impI)
  assume "reachable E st"
  then show "(startTime st \<noteq> None) = botRunning st" by (rule reachable_running)
next
  assume "reachable E st \<and> \<not> botRunning st"
  then have "startTime st = None" using reachable_running [of E st] by auto
  then show "tick now st = st" by (rule tick_stopped)
next
  assume "startTime (fst (handle E ev st)) \<noteq> startTime st"
  with handle_running [of E ev st]
  show "(\<exists>t. botRunning (fst (handle E ev st)) \<and> startTime (fst (handle E ev st)) = Some t \<and>
         ((\<exists>timestamp. ev = BotStarted t timestamp) \<or>
          (\<exists>response. ev = StatusLoaded response t))) \<or>
      (\<not> botRunning (fst (handle E ev st)) \<and> startTime (fst (handle E ev st)) = None \<and>
         (\<exists>timestamp. ev = BotStopped timestamp))"
    by auto
qed

theorem startTime_iff_botRunning_witness:
  "reachable integerEnv (newBot True fullPage (Some [])) \<and>
   (startTime (newBot True fullPage (Some [])) \<noteq> None)
     = botRunning (newBot True fullPage (Some [])) \<and>
   \<not> botRunning (newBot True fullPage (Some [])) \<and>
   tick 5000 (newBot True fullPage (Some [])) = newBot True fullPage (Some []) \<and>
   startTime (fst (handle integerEnv (BotStarted 1000 (ascii ''12:00:00''))
       (newBot True fullPage (Some [])))) \<noteq> startTime (newBot True fullPage (Some [])) \<and>
   botRunning (fst (handle integerEnv (BotStarted 1000 (ascii ''12:00:00''))
       (newBot True fullPage (Some [])))) \<and>
   startTime (fst (handle integerEnv (BotStarted 1000 (ascii ''12:00:00''))
       (newBot True fullPage (Some [])))) = Some 1000 \<and>
   reachable integerEnv (fst (handle integerEnv (BotStarted 1000 (ascii ''12:00:00''))
       (newBot True fullPage (Some [])))) \<and>
   (startTime (fst (handle integerEnv (BotStarted 1000 (ascii ''12:00:00''))
       (newBot True fullPage (Some [])))) \<noteq> None)
     = botRunning (fst (handle integerEnv (BotStarted 1000 (ascii ''12:00:00''))
       (newBot True fullPage (Some []))))"
proof -
  let ?st0 = "newBot True fullPage (Some [])"
  let ?st1 = "fst (handle integerEnv (BotStarted 1000 (ascii ''12:00:00'')) ?st0)"
  have r0: "reachable integerEnv ?st0" by (rule reachable.start)
  have r1: "reachable integerEnv ?st1" by (rule reachable.step [OF r0]) simp
  have n0: "\<not> botRunning ?st0" by simp
  have ch: "startTime ?st1 \<noteq> startTime ?st0" by simp
  have b1: "botRunning ?st1" by simp
  have s1: "startTime ?st1 = Some 1000" by simp
  note inv0 = startTime_iff_botRunning [of integerEnv ?st0 5000, THEN conjunct1, THEN mp, OF r0]
  note inv1 = startTime_iff_botRunning [of integerEnv ?st1 5000, THEN conjunct1, THEN mp, OF r1]
  note tk = startTime_iff_botRunning [of integerEnv ?st0 5000, THEN conjunct2, THEN conjunct1,
      THEN mp, OF conjI [OF r0 n0]]
  show ?thesis by (intro conjI r0 inv0 n0 tk ch b1 s1 r1 inv1)
qed

section \<open>Commands\<close>

lemma startBot_socket:
  "socket (startBot t st) =
     (if isConnected st then map_option (\<lambda>sent. sent @ [''start_bot'']) (socket st)
      else socket st)"
  by (cases "socket st") (simp_all add: startBot_def emit_def)

lemma stopBot_socket:
  "socket (stopBot t st) =
     (if isConnected st then map_option (\<lambda>sent. sent @ [''stop_bot'']) (socket st)
      else socket st)"
  by (cases "socket st") (simp_all add: stopBot_def emit_def)

lemma handle_socket: "(socket (fst (handle E ev st)) = None) = (socket st = None)"
  by (cases ev) (simp_all add: startBot_socket stopBot_socket)

lemma handle_isConnected:
  "isConnected (fst (handle E ev st)) = (ev = Connect \<or> ev \<noteq> Disconnect \<and> isConnected st)"
  by (cases ev) simp_all

lemma reachable_connected: "reachable E st \<Longrightarrow> isConnected st \<Longrightarrow> socket st \<noteq> None"
proof (induction rule: reachable.induct)
  case (start ioOk pg lg)
  then show ?case by simp
next
  case (step st ev)
  show ?case
  proof (cases "ev = Connect")
    case True
    with step.hyps show ?thesis by (simp add: handle_socket)
  next
    case False
    with step.prems have "isConnected st" by (simp add: handle_isConnected)
    then have "socket st \<noteq> None" by (rule step.IH)
    then show ?thesis by (simp add: handle_socket)
  qed
qed

section \<open>The log keeps twenty entries\<close>

lemma children_butlast_le: "length (children (butlast ns)) \<le> length (children ns)"
  by (induction ns) (simp_all add: children_def)

lemma children_butlast_ge: "length (children ns) \<le> Suc (length (children (butlast ns)))"
  by (induction ns) (simp_all add: children_def)

lemma keepLast20_children:
  "length (children (keepLast20 ns)) = min 20 (length (children ns))"
proof (induction ns rule: keepLast20.induct)
  case (1 ns)
  show ?case
  proof (cases "20 < length (children ns)")
    case True
    then have "keepLast20 ns = keepLast20 (butlast ns)"
      by (simp add: keepLast20.simps [of ns])
    moreover have "20 \<le> length (children (butlast ns))"
      using True children_butlast_ge [of ns] by simp
    ultimately show ?thesis using "1.IH" [OF True] True by simp
  next
    case False
    then show ?thesis by (simp add: keepLast20.simps [of ns])
  qed
qed

lemma keepLast20_take: "\<exists>k. keepLast20 ns = take k ns"
proof (induction ns rule: keepLast20.induct)
  case (1 ns)
  show ?case
  proof (cases "20 < length (children ns)")
    case True
    with "1.IH" obtain k where "keepLast20 (butlast ns) = take k (butlast ns)" by blast
    with True have "keepLast20 ns = take (min k (length ns - 1)) ns"
      by (simp add: keepLast20.simps [of ns] butlast_conv_take min.commute)
    then show ?thesis by blast
  next
    case False
    then have "keepLast20 ns = take (length ns) ns" by (simp add: keepLast20.simps [of ns])
    then show ?thesis by blast
  qed
qed

lemma keepLast20_small: "length (children ns) \<le> 20 \<Longrightarrow> keepLast20 ns = ns"
  by (simp add: keepLast20.simps [of ns])

lemma keepLast20_Cons:
  "\<exists>k. keepLast20 (ElementNode el # ns) = ElementNode el # take k ns"
proof -
  obtain k where k: "keepLast20 (ElementNode el # ns) = take k (ElementNode el # ns)"
    using keepLast20_take by blast
  have "length (children (ElementNode el # ns)) = Suc (length (children ns))"
    by (simp add: children_def isElementNode_def)
  then have "0 < min 20 (length (children (ElementNode el # ns)))" by simp
  then have "0 < length (children (keepLast20 (ElementNode el # ns)))"
    by (simp only: keepLast20_children)
  with k have "k \<noteq> 0" by (cases k) (simp_all add: children_def)
  then obtain j where "k = Suc j" by (cases k) auto
  with k show ?thesis by auto
qed


lemma addLogEntry_log:
  "activityLog (addLogEntry t m st) =
     map_option (\<lambda>ns. keepLast20 (ElementNode (logEntry t m) # ns)) (activityLog st)"
  by (cases "activityLog st") (simp_all add: addLogEntry_def)






text \<open>
  C6: while disconnected, \<^verbatim>\<open>startBot\<close> emits nothing and puts exactly one new entry, the
  refusal, at the front of the log (evicting from the tail only when the log is full), and
  \<^verbatim>\<open>stopBot\<close> changes nothing at all; while connected, in any reachable state, each emits
  exactly its own command on the socket.
\<close>

theorem command_dispatch:
  "(\<not> isConnected st \<longrightarrow> socket (startBot timestamp st) = socket st \<and> stopBot timestamp st = st) \<and>
   (\<not> isConnected st \<and> activityLog st = Some ns \<longrightarrow>
      (\<exists>k. activityLog (startBot timestamp st) =
         Some (ElementNode (logEntry timestamp
                 (crossMark @ ascii '' Cannot start bot - No connection to server'')) # take k ns))) \<and>
   (\<not> isConnected st \<and> activityLog st = Some ns \<and> length (children ns) < 20 \<longrightarrow>
      activityLog (startBot timestamp st) =
        Some (ElementNode (logEntry timestamp
                (crossMark @ ascii '' Cannot start bot - No connection to server'')) # ns)) \<and>
   (reachable E st \<and> isConnected st \<longrightarrow>
      (\<exists>sent. socket st = Some sent \<and>
         socket (startBot timestamp st) = Some (sent @ [''start_bot'']) \<and>
         socket (stopBot timestamp st) = Some (sent @ [''stop_bot''])))"
proof (intro conjI impI)
  assume "\<not> isConnected st"
  then show "socket (startBot timestamp st) = socket st" by (simp add: startBot_socket)
next
  assume "\<not> isConnected st"
  then show "stopBot timestamp st = st" by (simp add: stopBot_def)
next
  assume a: "\<not> isConnected st \<and> activityLog st = Some ns"
  obtain k where "keepLast20 (ElementNode (logEntry timestamp
      (crossMark @ ascii '' Cannot start bot - No connection to server'')) # ns) =
    ElementNode (logEntry timestamp
      (crossMark @ ascii '' Cannot start bot - No connection to server'')) # take k ns"
    using keepLast20_Cons by blast
  with a show "\<exists>k. activityLog (startBot timestamp st) =
         Some (ElementNode (logEntry timestamp
                 (crossMark @ ascii '' Cannot start bot - No connection to server'')) # take k ns)"
    by (auto simp add: startBot_def addLogEntry_log)
next
  assume a: "\<not> isConnected st \<and> activityLog st = Some ns \<and> length (children ns) < 20"
  then have "length (children (ElementNode (logEntry timestamp
      (crossMark @ ascii '' Cannot start bot - No connection to server'')) # ns)) \<le> 20"
    by (simp add: children_def)
  then have "keepLast20 (ElementNode (logEntry timestamp
      (crossMark @ ascii '' Cannot start bot - No connection to server'')) # ns) =
    ElementNode (logEntry timestamp
      (crossMark @ ascii '' Cannot start bot - No connection to server'')) # ns"
    by (rule keepLast20_small)
  with a show "activityLog (startBot timestamp st) =
        Some (ElementNode (logEntry timestamp
                (crossMark @ ascii '' Cannot start bot - No connection to server'')) # ns)"
    by (simp add: startBot_def addLogEntry_log)
next
  assume a: "reachable E st \<and> isConnected st"
  then have "socket st \<noteq> None" using reachable_connected by blast
  then obtain sent where "socket st = Some sent" by auto
  with a show "\<exists>sent. socket st = Some sent \<and>
         socket (startBot timestamp st) = Some (sent @ [''start_bot'']) \<and>
         socket (stopBot timestamp st) = Some (sent @ [''stop_bot''])"
    by (simp add: startBot_socket stopBot_socket)
qed

theorem command_dispatch_witness:
  "\<not> isConnected (newBot True fullPage (Some [])) \<and>
   activityLog (newBot True fullPage (Some [])) = Some [] \<and>
   length (children []) < 20 \<and>
   socket (startBot (ascii ''10:00:00'') (newBot True fullPage (Some []))) =
     socket (newBot True fullPage (Some [])) \<and>
   socket (newBot True fullPage (Some [])) = Some [] \<and>
   stopBot (ascii ''10:00:00'') (newBot True fullPage (Some [])) =
     newBot True fullPage (Some []) \<and>
   activityLog (startBot (ascii ''10:00:00'') (newBot True fullPage (Some []))) =
     Some [ElementNode (logEntry (ascii ''10:00:00'')
             (crossMark @ ascii '' Cannot start bot - No connection to server''))] \<and>
   reachable integerEnv (fst (handle integerEnv Connect (newBot True fullPage (Some [])))) \<and>
   isConnected (fst (handle integerEnv Connect (newBot True fullPage (Some [])))) \<and>
   (\<exists>sent. socket (fst (handle integerEnv Connect (newBot True fullPage (Some [])))) = Some sent \<and>
      socket (startBot (ascii ''10:00:01'')
        (fst (handle integerEnv Connect (newBot True fullPage (Some []))))) =
        Some (sent @ [''start_bot'']) \<and>
      socket (stopBot (ascii ''10:00:01'')
        (fst (handle integerEnv Connect (newBot True fullPage (Some []))))) =
        Some (sent @ [''stop_bot''])) \<and>
   socket (startBot (ascii ''10:00:01'')
        (fst (handle integerEnv Connect (newBot True fullPage (Some []))))) =
        Some [''start_bot'']"
proof -
  let ?st0 = "newBot True fullPage (Some [])"
  let ?st1 = "fst (handle integerEnv Connect ?st0)"
  have n: "\<not> isConnected ?st0" by simp
  have e: "activityLog ?st0 = Some []" by simp
  have c: "length (children ([] :: node list)) < 20" by (simp add: children_def)
  have s0: "socket ?st0 = Some []" by simp
  have r0: "reachable integerEnv ?st0" by (rule reachable.start)
  have r1: "reachable integerEnv ?st1" by (rule reachable.step [OF r0]) simp
  have i1: "isConnected ?st1" by simp
  have one: "socket (startBot (ascii ''10:00:01'') ?st1) = Some [''start_bot'']"
    by (simp add: startBot_socket)
  note cd0 = command_dispatch [of ?st0 "ascii ''10:00:00''" "[]" integerEnv]
  note cd1 = command_dispatch [of ?st1 "ascii ''10:00:01''" "[]" integerEnv]
  note a = cd0 [THEN conjunct1, THEN mp, OF n]
  note b = cd0 [THEN conjunct2, THEN conjunct2, THEN conjunct1, THEN mp,
      OF conjI [OF n conjI [OF e c]]]
  note d = cd1 [THEN conjunct2, THEN conjunct2, THEN conjunct2, THEN mp, OF conjI [OF r1 i1]]
  show ?thesis by (intro conjI n e c a [THEN conjunct1] a [THEN conjunct2] s0 b r1 i1 d one)
qed

section \<open>The uptime clock\<close>

lemma decimal_small: "n < 10 \<Longrightarrow> decimal n = [of_nat (48 + n)]"
  by (simp add: decimal.simps [of n])

lemma decimal_large: "10 \<le> n \<Longrightarrow> decimal n = decimal (n div 10) @ [of_nat (48 + n mod 10)]"
  by (simp add: decimal.simps [of n])

lemma decimal_nonempty: "decimal n \<noteq> []"
  by (simp add: decimal.simps [of n])

lemma length_decimal_large: "10 \<le> n \<Longrightarrow> 2 \<le> length (decimal n)"
proof -
  assume a: "10 \<le> n"
  obtain c cs where "decimal (n div 10) = c # cs"
    using decimal_nonempty [of "n div 10"] by (cases "decimal (n div 10)") auto
  then have "decimal n = (c # cs) @ [of_nat (48 + n mod 10)]"
    using decimal_large [OF a] by (simp only:)
  then show ?thesis by simp
qed

lemma padStart2_intToString: "0 \<le> i \<Longrightarrow> padStart2 (intToString i) = twoDigits (nat i)"
proof (cases "nat i < 10")
  case True
  assume "0 \<le> i"
  with True show ?thesis
    by (simp add: padStart2_def intToString_def twoDigits_def decimal_small)
next
  case False
  assume "0 \<le> i"
  with False length_decimal_large [of "nat i"] show ?thesis
    by (simp add: padStart2_def intToString_def twoDigits_def)
qed

lemma length_twoDigits: "2 \<le> length (twoDigits n)"
  by (simp add: twoDigits_def length_decimal_large)

lemma length_twoDigits_small: "n < 100 \<Longrightarrow> length (twoDigits n) = 2"
proof (cases "n < 10")
  case True
  then show ?thesis by (simp add: twoDigits_def)
next
  case False
  assume "n < 100"
  with False have "n div 10 < 10" by simp
  with False show ?thesis by (simp add: twoDigits_def decimal_large decimal_small)
qed

lemma remainder_nonneg: "0 \<le> a \<Longrightarrow> 0 < b \<Longrightarrow> remainder a b = a mod b"
  by (cases "a = 0") (simp_all add: remainder_def)

lemma minutes_of: "(up :: int) mod 3600000 div 60000 = up div 60000 mod 60"
  using zmod_zmult2_eq [of 60 up 60000] by simp

lemma seconds_of: "(up :: int) mod 60000 div 1000 = up div 1000 mod 60"
  using zmod_zmult2_eq [of 60 up 1000] by simp

lemma tick_page:
  assumes "page st (Id ''uptime'') = Some el" and "startTime st = Some T" and "T \<noteq> 0"
    and "T \<le> now"
  shows "page (tick now st) (Id ''uptime'') =
    Some (el\<lparr>textContent :=
      twoDigits (nat ((now - T) div 3600000)) @ ascii '':'' @
      twoDigits (nat ((now - T) div 60000 mod 60)) @ ascii '':'' @
      twoDigits (nat ((now - T) div 1000 mod 60))\<rparr>)"
proof -
  define up where "up = now - T"
  have up: "0 \<le> up" using assms(4) by (simp add: up_def)
  have h: "0 \<le> up div 3600000" using up by simp
  have m: "remainder up 3600000 div 60000 = up div 60000 mod 60"
    using up by (simp add: remainder_nonneg minutes_of)
  have s: "remainder up 60000 div 1000 = up div 1000 mod 60"
    using up by (simp add: remainder_nonneg seconds_of)
  have m0: "0 \<le> up div 60000 mod 60" and s0: "0 \<le> up div 1000 mod 60" by simp_all
  show ?thesis
    using assms(1-3)
    by (simp add: tick_def withElement_def Let_def up_def [symmetric] m s
        padStart2_intToString [OF h] padStart2_intToString [OF m0] padStart2_intToString [OF s0])
qed

lemma onBotStarted_uptime:
  "page (onBotStarted T timestamp st) (Id ''uptime'') = page st (Id ''uptime'')"
  by (simp add: onBotStarted_def updateSignalIndicator_def updateBotControls_def withElement_def
      split: option.split)

text \<open>
  C8: while the bot runs since a time \<open>T\<close> (other than the zero of the clock) and the page
  has the uptime element, a tick at \<open>now \<ge> T\<close> writes hours, minutes and seconds of
  \<open>now - T\<close>, separated by colons, each zero-padded to two digits; minutes and seconds have
  exactly two digits, hours at least two, with no upper bound. In particular a tick 3661
  seconds after \<^verbatim>\<open>bot_started\<close> at \<open>T\<close> writes \<^verbatim>\<open>01:01:01\<close>.
\<close>

theorem uptime_format:
  "(page st (Id ''uptime'') = Some el \<and> startTime st = Some T \<and> T \<noteq> 0 \<and> T \<le> now \<longrightarrow>
      page (tick now st) (Id ''uptime'') =
        Some (el\<lparr>textContent :=
          twoDigits (nat ((now - T) div 3600000)) @ ascii '':'' @
          twoDigits (nat ((now - T) div 60000 mod 60)) @ ascii '':'' @
          twoDigits (nat ((now - T) div 1000 mod 60))\<rparr>) \<and>
      2 \<le> length (twoDigits (nat ((now - T) div 3600000))) \<and>
      length (twoDigits (nat ((now - T) div 60000 mod 60))) = 2 \<and>
      length (twoDigits (nat ((now - T) div 1000 mod 60))) = 2) \<and>
   (page st (Id ''uptime'') = Some el \<and> T \<noteq> 0 \<longrightarrow>
      page (tick (T + 3661 * 1000) (onBotStarted T timestamp st)) (Id ''uptime'') =
        Some (el\<lparr>textContent := ascii ''01:01:01''\<rparr>))"
proof (intro conjI impI)
  assume a: "page st (Id ''uptime'') = Some el \<and> startTime st = Some T \<and> T \<noteq> 0 \<and> T \<le> now"
  then show "page (tick now st) (Id ''uptime'') =
        Some (el\<lparr>textContent :=
          twoDigits (nat ((now - T) div 3600000)) @ ascii '':'' @
          twoDigits (nat ((now - T) div 60000 mod 60)) @ ascii '':'' @
          twoDigits (nat ((now - T) div 1000 mod 60))\<rparr>)"
    by (intro tick_page) simp_all
  show "2 \<le> length (twoDigits (nat ((now - T) div 3600000)))" by (rule length_twoDigits)
  have "nat ((now - T) div 60000 mod 60) < 100" by simp
  then show "length (twoDigits (nat ((now - T) div 60000 mod 60))) = 2"
    by (rule length_twoDigits_small)
  have "nat ((now - T) div 1000 mod 60) < 100" by simp
  then show "length (twoDigits (nat ((now - T) div 1000 mod 60))) = 2"
    by (rule length_twoDigits_small)
next
  assume a: "page st (Id ''uptime'') = Some el \<and> T \<noteq> 0"
  have one: "twoDigits (Suc 0) = ascii ''01''" by (simp add: twoDigits_def ascii_def)
  have "page (tick (T + 3661 * 1000) (onBotStarted T timestamp st)) (Id ''uptime'') =
    Some (el\<lparr>textContent :=
      twoDigits (nat ((T + 3661 * 1000 - T) div 3600000)) @ ascii '':'' @
      twoDigits (nat ((T + 3661 * 1000 - T) div 60000 mod 60)) @ ascii '':'' @
      twoDigits (nat ((T + 3661 * 1000 - T) div 1000 mod 60))\<rparr>)"
    using a by (intro tick_page) (simp_all add: onBotStarted_uptime)
  then show "page (tick (T + 3661 * 1000) (onBotStarted T timestamp st)) (Id ''uptime'') =
        Some (el\<lparr>textContent := ascii ''01:01:01''\<rparr>)"
    by (simp add: one) (simp add: ascii_def)
qed

lemma newBot_page [simp]: "page (newBot True pg lg) = pg"
  by (simp add: newBot_def)

theorem uptime_format_witness:
  "page (onBotStarted 1000 (ascii ''10:00:00'') (newBot True fullPage (Some []))) (Id ''uptime'')
     = Some blankElement \<and>
   startTime (onBotStarted 1000 (ascii ''10:00:00'') (newBot True fullPage (Some [])))
     = Some 1000 \<and>
   (1000 :: int) \<noteq> 0 \<and> (1000 :: int) \<le> 360001000 \<and>
   page (tick 360001000 (onBotStarted 1000 (ascii ''10:00:00'') (newBot True fullPage (Some []))))
      (Id ''uptime'') = Some (blankElement\<lparr>textContent := ascii ''100:00:00''\<rparr>) \<and>
   page (newBot True fullPage (Some [])) (Id ''uptime'') = Some blankElement \<and>
   page (tick (1000 + 3661 * 1000)
      (onBotStarted 1000 (ascii ''10:00:00'') (newBot True fullPage (Some [])))) (Id ''uptime'')
     = Some (blankElement\<lparr>textContent := ascii ''01:01:01''\<rparr>)"
proof -
  let ?st0 = "newBot True fullPage (Some [])"
  let ?st1 = "onBotStarted 1000 (ascii ''10:00:00'') ?st0"
  have p0: "page ?st0 (Id ''uptime'') = Some blankElement" by (simp add: fullPage_def)
  have p1: "page ?st1 (Id ''uptime'') = Some blankElement"
    by (simp add: onBotStarted_uptime fullPage_def)
  have s1: "startTime ?st1 = Some 1000" by simp
  have n: "(1000 :: int) \<noteq> 0" and le: "(1000 :: int) \<le> 360001000" by simp_all
  have hms: "twoDigits (nat ((360001000 - 1000) div 3600000)) @ ascii '':'' @
      twoDigits (nat ((360001000 - 1000) div 60000 mod 60)) @ ascii '':'' @
      twoDigits (nat ((360001000 - 1000) div 1000 mod 60)) = ascii ''100:00:00''"
    by code_simp
  note fmt = uptime_format [of ?st1 blankElement 1000 360001000, THEN conjunct1, THEN mp,
      OF conjI [OF p1 conjI [OF s1 conjI [OF n le]]], THEN conjunct1]
  note scn = uptime_format [of ?st0 blankElement 1000 0 "ascii ''10:00:00''", THEN conjunct2,
      THEN mp, OF conjI [OF p0 n]]
  have long: "page (tick 360001000 ?st1) (Id ''uptime'') =
      Some (blankElement\<lparr>textContent := ascii ''100:00:00''\<rparr>)"
    using fmt by (simp only: hms)
  show ?thesis by (intro conjI p1 s1 n le long p0 scn)
qed

section \<open>Parsing the confidence\<close>



















end
